theory Spec2Isabelle
  imports Complex_Main
begin

section \<open>Movie catalogue: the routes of server/routes/movies.js over the Movie schema\<close>

text \<open>
  The routes are modelled after the access guard has attached the authenticated user to the
  request. A request body is the typed record the client sends (\<open>MovieFormData\<close>): a field
  is either absent (\<open>None\<close>, JavaScript's \<open>undefined\<close>) or present with a value of its
  declared type. Strings are lists of 8-bit code units, numbers are rationals (every JSON
  number literal is one; rounding to a double is not modelled), instants are natural numbers.
  The document store is a list of documents in insertion order.
\<close>

subsection \<open>Data model\<close>

type_synonym objectId = nat

record user =
  userId :: objectId
  username :: string
  email :: string

record movie =
  movieId :: objectId
  title :: string
  description :: string
  uploadedBy :: objectId
  uploadedAt :: nat
  genre :: "string option"
  releaseYear :: "rat option"
  rating :: "rat option"
  posterUrl :: "string option"
  createdAt :: nat
  updatedAt :: nat

record store =
  users :: "user list"
  movies :: "movie list"

text \<open>The body of a POST or PUT request: \<open>const { title, description, genre, releaseYear,
  rating, posterUrl } = req.body\<close>.\<close>

record reqBody =
  b_title :: "string option"
  b_description :: "string option"
  b_genre :: "string option"
  b_releaseYear :: "rat option"
  b_rating :: "rat option"
  b_posterUrl :: "string option"

text \<open>What a handler reads from outside the request: the clock (\<open>new Date()\<close>), the year
  at which the schema module was loaded (\<open>new Date().getFullYear()\<close> in the schema), and
  the identifier the driver generates for the next document.\<close>

record env =
  now :: nat
  bootYear :: nat
  freshId :: objectId

datatype error =
    ValidationError "string list"
  | ForbiddenError
  | NotFoundError
  | ConflictError
  | ServerError

fun httpStatus :: "error \<Rightarrow> nat" where
  "httpStatus (ValidationError _) = 400"
| "httpStatus ForbiddenError = 403"
| "httpStatus NotFoundError = 404"
| "httpStatus ConflictError = 400"
| "httpStatus ServerError = 500"

text \<open>A populated document: \<open>uploadedBy\<close> replaced by the selected fields of the owner
  (\<open>null\<close> when no such user is stored).\<close>

record ownerRef =
  o_id :: objectId
  o_username :: "string option"
  o_email :: "string option"

record movieView =
  v_movie :: movie
  v_owner :: "ownerRef option"

subsection \<open>Strings: \<open>String.prototype.trim\<close>\<close>

definition isSpace :: "char \<Rightarrow> bool" where
  "isSpace c = (c \<in> set [CHR 0x09, CHR 0x0A, CHR 0x0B, CHR 0x0C, CHR 0x0D, CHR 0x20, CHR 0xA0])"

definition trim :: "string \<Rightarrow> string" where
  "trim s = rev (dropWhile isSpace (rev (dropWhile isSpace s)))"

subsection \<open>Identifiers: casting the \<open>:id\<close> parameter to an ObjectId\<close>

text \<open>\<open>findById\<close> casts its argument; a string that is not 24 hexadecimal digits raises
  \<open>CastError\<close> (\<open>None\<close> here).\<close>

definition hexDigit :: "char \<Rightarrow> nat option" where
  "hexDigit c =
     (let n = (of_char c :: nat) in
      if 48 \<le> n \<and> n \<le> 57 then Some (n - 48)
      else if 97 \<le> n \<and> n \<le> 102 then Some (n - 87)
      else if 65 \<le> n \<and> n \<le> 70 then Some (n - 55)
      else None)"

fun parseHex :: "nat \<Rightarrow> string \<Rightarrow> nat option" where
  "parseHex acc [] = Some acc"
| "parseHex acc (c # cs) =
     (case hexDigit c of None \<Rightarrow> None | Some d \<Rightarrow> parseHex (16 * acc + d) cs)"

definition castObjectId :: "string \<Rightarrow> objectId option" where
  "castObjectId s = (if length s = 24 then parseHex 0 s else None)"

subsection \<open>Store operations\<close>

definition findById :: "store \<Rightarrow> objectId \<Rightarrow> movie option" where
  "findById s i = find (\<lambda>m. movieId m = i) (movies s)"

definition findOne :: "store \<Rightarrow> (movie \<Rightarrow> bool) \<Rightarrow> movie option" where
  "findOne s q = find q (movies s)"

definition selectFields :: "string list \<Rightarrow> user \<Rightarrow> ownerRef" where
  "selectFields sel u =
     \<lparr> o_id = userId u,
       o_username = (if ''username'' \<in> set sel then Some (username u) else None),
       o_email = (if ''email'' \<in> set sel then Some (email u) else None) \<rparr>"

definition populate :: "store \<Rightarrow> string list \<Rightarrow> movie \<Rightarrow> movieView" where
  "populate s sel m =
     \<lparr> v_movie = m,
       v_owner = map_option (selectFields sel) (find (\<lambda>u. userId u = uploadedBy m) (users s)) \<rparr>"

subsection \<open>The schema's validators\<close>

text \<open>\<open>required\<close> on a String path rejects the empty string; \<open>maxlength\<close>, \<open>min\<close> and
  \<open>max\<close> are inclusive and skip an absent value.\<close>

definition maxlength :: "nat \<Rightarrow> string option \<Rightarrow> bool" where
  "maxlength n v = (case v of None \<Rightarrow> True | Some x \<Rightarrow> length x \<le> n)"

definition inRange :: "rat \<Rightarrow> rat \<Rightarrow> rat option \<Rightarrow> bool" where
  "inRange lo hi v = (case v of None \<Rightarrow> True | Some x \<Rightarrow> lo \<le> x \<and> x \<le> hi)"

definition titleOk :: "string \<Rightarrow> bool" where
  "titleOk t = (t \<noteq> [] \<and> length t \<le> 200)"

definition descriptionOk :: "string \<Rightarrow> bool" where
  "descriptionOk d = (d \<noteq> [] \<and> length d \<le> 1000)"

definition genreOk :: "string option \<Rightarrow> bool" where
  "genreOk g = maxlength 50 g"

definition releaseYearOk :: "env \<Rightarrow> rat option \<Rightarrow> bool" where
  "releaseYearOk e y = inRange 1900 (of_nat (bootYear e + 5)) y"

definition ratingOk :: "rat option \<Rightarrow> bool" where
  "ratingOk r = inRange 0 10 r"

text \<open>Validation of a whole document on \<open>save\<close>.\<close>

definition schemaValid :: "env \<Rightarrow> movie \<Rightarrow> bool" where
  "schemaValid e m =
     (titleOk (title m) \<and> descriptionOk (description m) \<and> genreOk (genre m)
      \<and> releaseYearOk e (releaseYear m) \<and> ratingOk (rating m))"

subsection \<open>The routes' request validators (express-validator chains)\<close>

definition notEmpty :: "string option \<Rightarrow> bool" where
  "notEmpty v = (case v of None \<Rightarrow> False | Some x \<Rightarrow> x \<noteq> [])"

definition isLength :: "nat \<Rightarrow> string option \<Rightarrow> bool" where
  "isLength n v = (case v of None \<Rightarrow> True | Some x \<Rightarrow> length x \<le> n)"

text \<open>\<open>.optional()\<close> skips the chain when the field is \<open>undefined\<close>, and only then.\<close>

definition optional :: "(string option \<Rightarrow> bool) \<Rightarrow> string option \<Rightarrow> bool" where
  "optional chk v = (case v of None \<Rightarrow> True | Some _ \<Rightarrow> chk v)"

definition check :: "bool \<Rightarrow> string \<Rightarrow> string list" where
  "check ok msg = (if ok then [] else [msg])"

definition postErrors :: "reqBody \<Rightarrow> string list" where
  "postErrors b =
     check (notEmpty (b_title b)) ''Title is required''
     @ check (notEmpty (b_description b)) ''Description is required''
     @ check (isLength 200 (b_title b)) ''Title must be less than 200 characters''
     @ check (isLength 1000 (b_description b)) ''Description must be less than 1000 characters''"

definition putErrors :: "reqBody \<Rightarrow> string list" where
  "putErrors b =
     check (optional notEmpty (b_title b)) ''Title cannot be empty''
     @ check (optional notEmpty (b_description b)) ''Description cannot be empty''
     @ check (optional (isLength 200) (b_title b)) ''Title must be less than 200 characters''
     @ check (optional (isLength 1000) (b_description b))
         ''Description must be less than 1000 characters''"

subsection \<open>PUT /api/movies/:id\<close>

text \<open>The \<open>updates\<close> object applied to the stored document: a field is set exactly when
  the body has it (\<open>!== undefined\<close>), strings trimmed; \<open>timestamps: true\<close> refreshes
  \<open>updatedAt\<close>.\<close>

definition applyUpdates :: "env \<Rightarrow> reqBody \<Rightarrow> movie \<Rightarrow> movie" where
  "applyUpdates e b m =
     m \<lparr> title := (case b_title b of None \<Rightarrow> title m | Some t \<Rightarrow> trim t),
         description := (case b_description b of None \<Rightarrow> description m | Some d \<Rightarrow> trim d),
         genre := (case b_genre b of None \<Rightarrow> genre m | Some g \<Rightarrow> Some (trim g)),
         releaseYear := (case b_releaseYear b of None \<Rightarrow> releaseYear m | Some y \<Rightarrow> Some y),
         rating := (case b_rating b of None \<Rightarrow> rating m | Some r \<Rightarrow> Some r),
         posterUrl := (case b_posterUrl b of None \<Rightarrow> posterUrl m | Some p \<Rightarrow> Some (trim p)),
         updatedAt := now e \<rparr>"

text \<open>\<open>runValidators: true\<close>: the schema's validators run on the paths the update sets.\<close>

definition updateValid :: "env \<Rightarrow> reqBody \<Rightarrow> bool" where
  "updateValid e b =
     ((case b_title b of None \<Rightarrow> True | Some t \<Rightarrow> titleOk (trim t))
      \<and> (case b_description b of None \<Rightarrow> True | Some d \<Rightarrow> descriptionOk (trim d))
      \<and> genreOk (map_option trim (b_genre b))
      \<and> releaseYearOk e (b_releaseYear b)
      \<and> ratingOk (b_rating b))"

text \<open>\<open>findByIdAndUpdate\<close> and \<open>findByIdAndDelete\<close> touch the first document with
  the identifier.\<close>

fun replaceById :: "objectId \<Rightarrow> movie \<Rightarrow> movie list \<Rightarrow> movie list" where
  "replaceById i m' [] = []"
| "replaceById i m' (m # ms) = (if movieId m = i then m' # ms else m # replaceById i m' ms)"

fun removeById :: "objectId \<Rightarrow> movie list \<Rightarrow> movie list" where
  "removeById i [] = []"
| "removeById i (m # ms) = (if movieId m = i then ms else m # removeById i ms)"

definition put_movie ::
  "env \<Rightarrow> store \<Rightarrow> user \<Rightarrow> string \<Rightarrow> reqBody \<Rightarrow> (error + movieView) \<times> store" where
  "put_movie e s u idParam b =
     (if putErrors b \<noteq> [] then (Inl (ValidationError (putErrors b)), s)
      else case castObjectId idParam of
        None \<Rightarrow> (Inl NotFoundError, s)
      | Some i \<Rightarrow>
         (case findById s i of
            None \<Rightarrow> (Inl NotFoundError, s)
          | Some m \<Rightarrow>
             if uploadedBy m \<noteq> userId u then (Inl ForbiddenError, s)
             else if \<not> updateValid e b then (Inl ServerError, s)
             else
               let m' = applyUpdates e b m;
                   s' = s \<lparr> movies := replaceById i m' (movies s) \<rparr>
               in (Inr (populate s' [''username''] m'), s')))"

subsection \<open>DELETE /api/movies/:id\<close>

definition delete_movie :: "store \<Rightarrow> user \<Rightarrow> string \<Rightarrow> (error + unit) \<times> store" where
  "delete_movie s u idParam =
     (case castObjectId idParam of
        None \<Rightarrow> (Inl NotFoundError, s)
      | Some i \<Rightarrow>
         (case findById s i of
            None \<Rightarrow> (Inl NotFoundError, s)
          | Some m \<Rightarrow>
             if uploadedBy m \<noteq> userId u then (Inl ForbiddenError, s)
             else (Inr (), s \<lparr> movies := removeById i (movies s) \<rparr>)))"

subsection \<open>GET /api/movies/:id\<close>

definition get_movie :: "store \<Rightarrow> string \<Rightarrow> error + movieView" where
  "get_movie s idParam =
     (case castObjectId idParam of
        None \<Rightarrow> Inl NotFoundError
      | Some i \<Rightarrow>
         (case findById s i of
            None \<Rightarrow> Inl NotFoundError
          | Some m \<Rightarrow> Inr (populate s [''username'', ''email''] m)))"

subsection \<open>POST /api/movies\<close>

text \<open>JavaScript truthiness of an optional string and of an optional number.\<close>

definition truthyStr :: "string option \<Rightarrow> bool" where
  "truthyStr v = (case v of None \<Rightarrow> False | Some x \<Rightarrow> x \<noteq> [])"

definition truthyNum :: "rat option \<Rightarrow> bool" where
  "truthyNum v = (case v of None \<Rightarrow> False | Some x \<Rightarrow> x \<noteq> 0)"

text \<open>\<open>new Movie({...})\<close>: the object literal of the route, then the schema's setters
  (\<open>trim: true\<close> on the four String paths) and defaults (\<open>rating\<close> 0, timestamps).\<close>

definition schemaSet :: "movie \<Rightarrow> movie" where
  "schemaSet m =
     m \<lparr> title := trim (title m), description := trim (description m),
         genre := map_option trim (genre m), posterUrl := map_option trim (posterUrl m),
         rating := (case rating m of None \<Rightarrow> Some 0 | Some r \<Rightarrow> Some r) \<rparr>"

definition newMovie :: "env \<Rightarrow> user \<Rightarrow> string \<Rightarrow> string \<Rightarrow> reqBody \<Rightarrow> movie" where
  "newMovie e u t d b =
     schemaSet
       \<lparr> movieId = freshId e,
         title = trim t,
         description = trim d,
         uploadedBy = userId u,
         uploadedAt = now e,
         genre = (if truthyStr (b_genre b) then map_option trim (b_genre b) else None),
         releaseYear = (if truthyNum (b_releaseYear b) then b_releaseYear b else None),
         rating = (if truthyNum (b_rating b) then b_rating b else None),
         posterUrl = (if truthyStr (b_posterUrl b) then map_option trim (b_posterUrl b) else None),
         createdAt = now e,
         updatedAt = now e \<rparr>"

text \<open>\<open>save\<close> fails (and the route answers 500) when the document violates the schema or
  its identifier is already taken.\<close>

definition post_movie ::
  "env \<Rightarrow> store \<Rightarrow> user \<Rightarrow> reqBody \<Rightarrow> (error + movieView) \<times> store" where
  "post_movie e s u b =
     (if postErrors b \<noteq> [] then (Inl (ValidationError (postErrors b)), s)
      else case (b_title b, b_description b) of
        (Some t, Some d) \<Rightarrow>
          (case findOne s (\<lambda>m. title m = trim t \<and> uploadedBy m = userId u) of
             Some existingMovie \<Rightarrow> (Inl ConflictError, s)
           | None \<Rightarrow>
              let m = newMovie e u t d b in
              if \<not> schemaValid e m then (Inl ServerError, s)
              else if findById s (movieId m) \<noteq> None then (Inl ServerError, s)
              else
                let s' = s \<lparr> movies := movies s @ [m] \<rparr>
                in (Inr (populate s' [''username''] m), s'))
      | _ \<Rightarrow> (Inl ServerError, s))"

subsection \<open>Sorting and paging\<close>

text \<open>The value a document is sorted by: missing fields sort first, then numbers, then
  strings. A field name the schema does not have gives \<open>KNull\<close> for every document.\<close>

datatype sortKey = KNull | KNum rat | KStr string

fun strLe :: "string \<Rightarrow> string \<Rightarrow> bool" where
  "strLe [] _ = True"
| "strLe (a # as) [] = False"
| "strLe (a # as) (b # bs) =
     ((of_char a :: nat) < of_char b \<or> (a = b \<and> strLe as bs))"

fun keyLe :: "sortKey \<Rightarrow> sortKey \<Rightarrow> bool" where
  "keyLe KNull _ = True"
| "keyLe (KNum a) KNull = False"
| "keyLe (KNum a) (KNum b) = (a \<le> b)"
| "keyLe (KNum a) (KStr b) = True"
| "keyLe (KStr a) (KStr b) = strLe a b"
| "keyLe (KStr a) _ = False"

definition optKey :: "('a \<Rightarrow> sortKey) \<Rightarrow> 'a option \<Rightarrow> sortKey" where
  "optKey k v = (case v of None \<Rightarrow> KNull | Some x \<Rightarrow> k x)"

definition fieldKey :: "string \<Rightarrow> movie \<Rightarrow> sortKey" where
  "fieldKey f m =
     (if f = ''_id'' then KNum (of_nat (movieId m))
      else if f = ''title'' then KStr (title m)
      else if f = ''description'' then KStr (description m)
      else if f = ''uploadedBy'' then KNum (of_nat (uploadedBy m))
      else if f = ''uploadedAt'' then KNum (of_nat (uploadedAt m))
      else if f = ''genre'' then optKey KStr (genre m)
      else if f = ''releaseYear'' then optKey KNum (releaseYear m)
      else if f = ''rating'' then optKey KNum (rating m)
      else if f = ''posterUrl'' then optKey KStr (posterUrl m)
      else if f = ''createdAt'' then KNum (of_nat (createdAt m))
      else if f = ''updatedAt'' then KNum (of_nat (updatedAt m))
      else KNull)"

text \<open>\<open>sort[sortBy] = sortOrder === 'desc' ? -1 : 1\<close>. Documents with equal keys keep the
  store's order.\<close>

definition before :: "string \<Rightarrow> string \<Rightarrow> movie \<Rightarrow> movie \<Rightarrow> bool" where
  "before sortBy sortOrder a b =
     (if sortOrder = ''desc'' then keyLe (fieldKey sortBy b) (fieldKey sortBy a)
      else keyLe (fieldKey sortBy a) (fieldKey sortBy b))"

fun insertDoc :: "(movie \<Rightarrow> movie \<Rightarrow> bool) \<Rightarrow> movie \<Rightarrow> movie list \<Rightarrow> movie list" where
  "insertDoc le x [] = [x]"
| "insertDoc le x (y # ys) = (if le x y then x # y # ys else y # insertDoc le x ys)"

definition sortDocs :: "string \<Rightarrow> string \<Rightarrow> movie list \<Rightarrow> movie list" where
  "sortDocs sortBy sortOrder ms = foldr (insertDoc (before sortBy sortOrder)) ms []"

text \<open>\<open>.limit(limit * 1).skip((page - 1) * limit)\<close>: the store skips first; a limit of 0
  is no limit.\<close>

definition paginate :: "nat \<Rightarrow> nat \<Rightarrow> 'a list \<Rightarrow> 'a list" where
  "paginate skip limit xs = (if limit = 0 then drop skip xs else take limit (drop skip xs))"

text \<open>\<open>Math.ceil(total / limit)\<close>; dividing by 0 gives no finite number (\<open>null\<close> in the
  JSON answer).\<close>

definition pageCount :: "nat \<Rightarrow> nat \<Rightarrow> nat option" where
  "pageCount count limit =
     (if limit = 0 then None else Some (nat \<lceil>(of_nat count :: rat) / of_nat limit\<rceil>))"

record listQuery =
  q_page :: "nat option"
  q_limit :: "nat option"
  q_search :: "string option"
  q_sortBy :: "string option"
  q_sortOrder :: "string option"

record listing =
  l_movies :: "movieView list"
  currentPage :: nat
  totalPages :: "nat option"
  totalMovies :: nat

definition pageOf :: "listQuery \<Rightarrow> nat" where
  "pageOf q = (case q_page q of None \<Rightarrow> 1 | Some p \<Rightarrow> p)"

definition limitOf :: "listQuery \<Rightarrow> nat" where
  "limitOf q = (case q_limit q of None \<Rightarrow> 10 | Some l \<Rightarrow> l)"

definition sortByOf :: "listQuery \<Rightarrow> string" where
  "sortByOf q = (case q_sortBy q of None \<Rightarrow> ''uploadedAt'' | Some f \<Rightarrow> f)"

definition sortOrderOf :: "listQuery \<Rightarrow> string" where
  "sortOrderOf q = (case q_sortOrder q of None \<Rightarrow> ''desc'' | Some d \<Rightarrow> d)"

subsection \<open>Text search\<close>

text \<open>Modelled from the spec: the store's \<open>$text\<close> operator over the text index on
  \<open>title\<close> and \<open>description\<close>, which belongs to the document store and is not in the
  repository. The spec's words: a text match over title and description, OR semantics
  across both fields, case-insensitive, tokenized. Here a token is a maximal run of letters
  and digits of the lower-cased string, and a field matches when it has a token of the
  search string.\<close>

definition lowerChar :: "char \<Rightarrow> char" where
  "lowerChar c =
     (let n = (of_char c :: nat) in if 65 \<le> n \<and> n \<le> 90 then char_of (n + 32) else c)"

definition isTokenChar :: "char \<Rightarrow> bool" where
  "isTokenChar c =
     (let n = (of_char c :: nat) in (48 \<le> n \<and> n \<le> 57) \<or> (97 \<le> n \<and> n \<le> 122))"

fun tokenize :: "string \<Rightarrow> string \<Rightarrow> string list" where
  "tokenize cur [] = (if cur = [] then [] else [rev cur])"
| "tokenize cur (c # cs) =
     (if isTokenChar c then tokenize (c # cur) cs
      else (if cur = [] then [] else [rev cur]) @ tokenize [] cs)"

definition tokens :: "string \<Rightarrow> string list" where
  "tokens s = tokenize [] (map lowerChar s)"

text \<open>Modelled from the spec: a tokenized, case-insensitive match of one field.\<close>

definition fieldMatch :: "string \<Rightarrow> string \<Rightarrow> bool" where
  "fieldMatch search field = list_ex (\<lambda>t. t \<in> set (tokens field)) (tokens search)"

text \<open>Modelled from the spec: OR across the two indexed fields.\<close>

definition textMatch :: "string \<Rightarrow> movie \<Rightarrow> bool" where
  "textMatch search m = (fieldMatch search (title m) \<or> fieldMatch search (description m))"

subsection \<open>GET /api/movies and GET /api/movies/user/my-movies\<close>

text \<open>\<open>if (search) query.$text = { $search: search }\<close>: an absent or empty search string
  leaves the query empty.\<close>

definition searchQuery :: "string option \<Rightarrow> movie \<Rightarrow> bool" where
  "searchQuery search m =
     (if truthyStr search then (case search of Some x \<Rightarrow> textMatch x m | None \<Rightarrow> True)
      else True)"

definition get_movies :: "store \<Rightarrow> listQuery \<Rightarrow> error + listing" where
  "get_movies s q =
     (let page = pageOf q; limit = limitOf q;
          query = searchQuery (q_search q);
          skip = (int page - 1) * int limit
      in if skip < 0 then Inl ServerError
         else
           let found = paginate (nat skip) limit
                         (sortDocs (sortByOf q) (sortOrderOf q) (filter query (movies s)));
               count = length (filter query (movies s))
           in Inr \<lparr> l_movies = map (populate s [''username'']) found,
                    currentPage = page,
                    totalPages = pageCount count limit,
                    totalMovies = count \<rparr>)"

definition get_my_movies :: "store \<Rightarrow> user \<Rightarrow> listQuery \<Rightarrow> error + listing" where
  "get_my_movies s u q =
     (let page = pageOf q; limit = limitOf q;
          query = (\<lambda>m. uploadedBy m = userId u);
          skip = (int page - 1) * int limit
      in if skip < 0 then Inl ServerError
         else
           let found = paginate (nat skip) limit
                         (sortDocs (sortByOf q) (sortOrderOf q) (filter query (movies s)));
               count = length (filter query (movies s))
           in Inr \<lparr> l_movies = map (populate s [''username'']) found,
                    currentPage = page,
                    totalPages = pageCount count limit,
                    totalMovies = count \<rparr>)"

subsection \<open>The trimmed-strings invariant\<close>

definition trimmedMovie :: "movie \<Rightarrow> bool" where
  "trimmedMovie m =
     (trim (title m) = title m \<and> trim (description m) = description m
      \<and> map_option trim (genre m) = genre m \<and> map_option trim (posterUrl m) = posterUrl m)"

definition trimmedStore :: "store \<Rightarrow> bool" where
  "trimmedStore s = list_all trimmedMovie (movies s)"

subsection \<open>A small catalogue for the examples\<close>

definition alice :: user where
  "alice = \<lparr> userId = 1, username = ''alice'', email = ''alice@example.com'' \<rparr>"

definition bob :: user where
  "bob = \<lparr> userId = 2, username = ''bob'', email = ''bob@example.com'' \<rparr>"

definition dune :: movie where
  "dune = \<lparr> movieId = 161, title = ''Dune'', description = ''Desert planet saga'',
            uploadedBy = 1, uploadedAt = 100, genre = Some ''Sci-Fi'',
            releaseYear = Some 2021, rating = Some (17 / 2), posterUrl = None,
            createdAt = 100, updatedAt = 100 \<rparr>"

definition arrival :: movie where
  "arrival = \<lparr> movieId = 162, title = ''Arrival'', description = ''First contact'',
               uploadedBy = 2, uploadedAt = 110, genre = None,
               releaseYear = Some 2016, rating = Some 8, posterUrl = None,
               createdAt = 110, updatedAt = 110 \<rparr>"

definition catalogue :: store where
  "catalogue = \<lparr> users = [alice, bob], movies = [dune, arrival] \<rparr>"

text \<open>A second movie of Alice's, and the catalogue with it.\<close>

definition sequel :: movie where
  "sequel = \<lparr> movieId = 164, title = ''Dune: Part Two'', description = ''The saga continues'',
              uploadedBy = 1, uploadedAt = 120, genre = Some ''Sci-Fi'',
              releaseYear = Some 2024, rating = Some 9, posterUrl = None,
              createdAt = 120, updatedAt = 120 \<rparr>"

definition sequelId :: string where
  "sequelId = ''0000000000000000000000a4''"

definition catalogue2 :: store where
  "catalogue2 = \<lparr> users = [alice, bob], movies = [dune, arrival, sequel] \<rparr>"

definition duneId :: string where
  "duneId = ''0000000000000000000000a1''"

definition missingId :: string where
  "missingId = ''0000000000000000000000ff''"

definition malformedId :: string where
  "malformedId = ''not-an-id''"

definition today :: env where
  "today = \<lparr> now = 200, bootYear = 2025, freshId = 163 \<rparr>"

text \<open>The empty body \<open>{}\<close>.\<close>

definition noFields :: reqBody where
  "noFields = \<lparr> b_title = None, b_description = None, b_genre = None,
                b_releaseYear = None, b_rating = None, b_posterUrl = None \<rparr>"

text \<open>A body for creating ``Dune'', with blanks around the title.\<close>

definition duneBody :: reqBody where
  "duneBody = noFields \<lparr> b_title := Some '' Dune '', b_description := Some ''Desert planet saga'' \<rparr>"

definition noParams :: listQuery where
  "noParams = \<lparr> q_page = None, q_limit = None, q_search = None,
                q_sortBy = None, q_sortOrder = None \<rparr>"

section \<open>Properties\<close>

subsection \<open>The outcomes of each route\<close>

lemma put_movie_invalid:
  assumes "putErrors b \<noteq> []"
  shows "put_movie e s u idParam b = (Inl (ValidationError (putErrors b)), s)"
  unfolding put_movie_def using assms by simp

lemma put_movie_malformed:
  assumes "putErrors b = []" "castObjectId idParam = None"
  shows "put_movie e s u idParam b = (Inl NotFoundError, s)"
  unfolding put_movie_def using assms by simp

lemma put_movie_missing:
  assumes "putErrors b = []" "castObjectId idParam = Some i" "findById s i = None"
  shows "put_movie e s u idParam b = (Inl NotFoundError, s)"
  unfolding put_movie_def using assms by simp

lemma put_movie_forbidden:
  assumes "putErrors b = []" "castObjectId idParam = Some i" "findById s i = Some m"
    "uploadedBy m \<noteq> userId u"
  shows "put_movie e s u idParam b = (Inl ForbiddenError, s)"
  unfolding put_movie_def using assms by simp

lemma put_movie_rejected:
  assumes "putErrors b = []" "castObjectId idParam = Some i" "findById s i = Some m"
    "uploadedBy m = userId u" "\<not> updateValid e b"
  shows "put_movie e s u idParam b = (Inl ServerError, s)"
  unfolding put_movie_def using assms by simp

lemma put_movie_ok:
  assumes "putErrors b = []" "castObjectId idParam = Some i" "findById s i = Some m"
    "uploadedBy m = userId u" "updateValid e b"
  shows "put_movie e s u idParam b =
           (Inr (populate (s \<lparr> movies := replaceById i (applyUpdates e b m) (movies s) \<rparr>)
                   [''username''] (applyUpdates e b m)),
            s \<lparr> movies := replaceById i (applyUpdates e b m) (movies s) \<rparr>)"
  unfolding put_movie_def Let_def using assms by simp

lemma put_movie_error_store:
  assumes "put_movie e s u idParam b = (Inl err, s')"
  shows "s' = s"
  using assms unfolding put_movie_def Let_def
  by (simp split: if_splits option.splits)

lemma delete_movie_malformed:
  assumes "castObjectId idParam = None"
  shows "delete_movie s u idParam = (Inl NotFoundError, s)"
  unfolding delete_movie_def using assms by simp

lemma delete_movie_missing:
  assumes "castObjectId idParam = Some i" "findById s i = None"
  shows "delete_movie s u idParam = (Inl NotFoundError, s)"
  unfolding delete_movie_def using assms by simp

lemma delete_movie_forbidden:
  assumes "castObjectId idParam = Some i" "findById s i = Some m" "uploadedBy m \<noteq> userId u"
  shows "delete_movie s u idParam = (Inl ForbiddenError, s)"
  unfolding delete_movie_def using assms by simp

lemma delete_movie_ok:
  assumes "castObjectId idParam = Some i" "findById s i = Some m" "uploadedBy m = userId u"
  shows "delete_movie s u idParam = (Inr (), s \<lparr> movies := removeById i (movies s) \<rparr>)"
  unfolding delete_movie_def using assms by simp

lemma get_movie_malformed:
  assumes "castObjectId idParam = None"
  shows "get_movie s idParam = Inl NotFoundError"
  unfolding get_movie_def using assms by simp

lemma get_movie_missing:
  assumes "castObjectId idParam = Some i" "findById s i = None"
  shows "get_movie s idParam = Inl NotFoundError"
  unfolding get_movie_def using assms by simp

lemma get_movie_ok:
  assumes "castObjectId idParam = Some i" "findById s i = Some m"
  shows "get_movie s idParam = Inr (populate s [''username'', ''email''] m)"
  unfolding get_movie_def using assms by simp

lemma putErrors_Nil_iff:
  "putErrors b = [] \<longleftrightarrow>
     (case b_title b of None \<Rightarrow> True | Some t \<Rightarrow> t \<noteq> [] \<and> length t \<le> 200)
   \<and> (case b_description b of None \<Rightarrow> True | Some d \<Rightarrow> d \<noteq> [] \<and> length d \<le> 1000)"
  by (auto simp: putErrors_def check_def optional_def notEmpty_def isLength_def
      split: option.splits)

lemma postErrors_Nil_iff:
  "postErrors b = [] \<longleftrightarrow>
     (\<exists>t d. b_title b = Some t \<and> b_description b = Some d
        \<and> t \<noteq> [] \<and> length t \<le> 200 \<and> d \<noteq> [] \<and> length d \<le> 1000)"
  by (auto simp: postErrors_def check_def notEmpty_def isLength_def split: option.splits)

subsection \<open>Facts about the example catalogue\<close>

lemma example_ids:
  "castObjectId duneId = Some 161" "castObjectId missingId = Some 255"
  "castObjectId malformedId = None"
  by (simp_all add: castObjectId_def duneId_def missingId_def malformedId_def hexDigit_def)

lemma example_lookups:
  "findById catalogue 161 = Some dune" "findById catalogue 255 = None"
  by (simp_all add: findById_def catalogue_def dune_def arrival_def)

subsection \<open>Ownership\<close>

text \<open>A created movie is stored under its creator, and \<open>applyUpdates_fixed\<close> below shows
  that no update changes \<open>uploadedBy\<close>: the movies created by a user are those with the
  user's identifier in \<open>uploadedBy\<close>.\<close>

lemma post_movie_stamps_owner:
  assumes "post_movie e s u b = (Inr v, s')"
  shows "uploadedBy (v_movie v) = userId u \<and> v_movie v \<in> set (movies s')"
  using assms unfolding post_movie_def Let_def
  by (auto simp: populate_def newMovie_def schemaSet_def split: if_splits option.splits)

text \<open>
  Claim C1, as amended. For a movie owned by one user and a request by a different user:
  \<open>PUT\<close> always fails and leaves the store as it was; the error is \<open>ForbiddenError\<close>
  (403) when the body passes the route's title and description validators, which run before
  the movie is looked up, and their \<open>ValidationError\<close> (400) otherwise. \<open>DELETE\<close>,
  which has no validators, always fails with \<open>ForbiddenError\<close> and leaves the store as it
  was.
\<close>

theorem nonowner_put_delete_rejected:
  assumes "castObjectId idParam = Some i" "findById s i = Some m" "uploadedBy m \<noteq> userId u"
  shows "put_movie e s u idParam b =
           (Inl (if putErrors b = [] then ForbiddenError else ValidationError (putErrors b)), s)
       \<and> delete_movie s u idParam = (Inl ForbiddenError, s)"
proof (cases "putErrors b = []")
  case True
  then show ?thesis
    using assms put_movie_forbidden[of b idParam i s m u e] delete_movie_forbidden[of idParam i s m u]
    by simp
next
  case False
  then show ?thesis
    using assms put_movie_invalid[of b e s u idParam] delete_movie_forbidden[of idParam i s m u]
    by simp
qed

text \<open>Bob asks to change and to delete Alice's movie.\<close>

theorem nonowner_put_delete_rejected_witness:
  "put_movie today catalogue bob duneId (noFields \<lparr> b_rating := Some 9 \<rparr>)
     = (Inl ForbiddenError, catalogue)
   \<and> delete_movie catalogue bob duneId = (Inl ForbiddenError, catalogue)"
proof -
  have own: "uploadedBy dune \<noteq> userId bob" by (simp add: dune_def bob_def)
  have ok: "putErrors (noFields \<lparr> b_rating := Some 9 \<rparr>) = []"
    by (simp add: putErrors_Nil_iff noFields_def)
  show ?thesis
    using nonowner_put_delete_rejected[OF example_ids(1) example_lookups(1) own,
        of today "noFields \<lparr> b_rating := Some 9 \<rparr>"] ok
    by simp
qed

text \<open>Claim C1 as stated fails: Bob's update of Alice's movie with an empty title is
  answered by the validators (400), not by the ownership check (403).\<close>

theorem nonowner_put_not_forbidden_counterexample:
  "uploadedBy dune = userId alice \<and> userId bob \<noteq> userId alice
   \<and> castObjectId duneId = Some (movieId dune) \<and> findById catalogue (movieId dune) = Some dune
   \<and> put_movie today catalogue bob duneId (noFields \<lparr> b_title := Some [] \<rparr>)
       = (Inl (ValidationError [''Title cannot be empty'']), catalogue)"
  by (simp add: example_ids example_lookups put_movie_def putErrors_def check_def optional_def
      notEmpty_def isLength_def noFields_def dune_def alice_def bob_def)

subsection \<open>Malformed identifiers\<close>

text \<open>
  Claim C6, as amended. A request whose \<open>:id\<close> is not a well-formed identifier is answered
  exactly as the same request for a well-formed identifier that no movie has: \<open>GET\<close> and
  \<open>DELETE\<close> answer \<open>NotFoundError\<close> (404); \<open>PUT\<close> answers \<open>NotFoundError\<close> when
  the body passes the route's title and description validators, and their
  \<open>ValidationError\<close> (400) otherwise, in both cases, because the validators run before the
  identifier is used. Nothing is stored.
\<close>

theorem malformed_id_as_missing:
  assumes "castObjectId idParam = None"
  shows "get_movie s idParam = Inl NotFoundError
       \<and> delete_movie s u idParam = (Inl NotFoundError, s)
       \<and> put_movie e s u idParam b =
           (Inl (if putErrors b = [] then NotFoundError else ValidationError (putErrors b)), s)
       \<and> (\<forall>other j. castObjectId other = Some j \<and> findById s j = None \<longrightarrow>
             get_movie s other = get_movie s idParam
           \<and> delete_movie s u other = delete_movie s u idParam
           \<and> put_movie e s u other b = put_movie e s u idParam b)"
proof -
  have g: "get_movie s idParam = Inl NotFoundError"
    using assms by (rule get_movie_malformed)
  have d: "delete_movie s u idParam = (Inl NotFoundError, s)"
    using assms by (rule delete_movie_malformed)
  have p: "put_movie e s u idParam b =
           (Inl (if putErrors b = [] then NotFoundError else ValidationError (putErrors b)), s)"
  proof (cases "putErrors b = []")
    case True
    then show ?thesis using put_movie_malformed[OF True assms] by simp
  next
    case False
    then show ?thesis using put_movie_invalid[OF False] by simp
  qed
  have o: "get_movie s other = get_movie s idParam
      \<and> delete_movie s u other = delete_movie s u idParam
      \<and> put_movie e s u other b = put_movie e s u idParam b"
    if c: "castObjectId other = Some j" and f: "findById s j = None" for other j
  proof -
    have "put_movie e s u other b = put_movie e s u idParam b"
    proof (cases "putErrors b = []")
      case True
      then show ?thesis using put_movie_missing[OF True c f] p by simp
    next
      case False
      then show ?thesis using put_movie_invalid[OF False] by simp
    qed
    then show ?thesis
      using get_movie_missing[OF c f] delete_movie_missing[OF c f] g d by simp
  qed
  from g d p o show ?thesis by blast
qed

text \<open>A malformed and an unused identifier, on the example catalogue.\<close>

theorem malformed_id_as_missing_witness:
  "get_movie catalogue malformedId = Inl NotFoundError
   \<and> delete_movie catalogue alice malformedId = (Inl NotFoundError, catalogue)
   \<and> put_movie today catalogue alice malformedId (noFields \<lparr> b_rating := Some 9 \<rparr>)
       = (Inl NotFoundError, catalogue)
   \<and> get_movie catalogue missingId = get_movie catalogue malformedId
   \<and> delete_movie catalogue alice missingId = delete_movie catalogue alice malformedId
   \<and> put_movie today catalogue alice missingId (noFields \<lparr> b_rating := Some 9 \<rparr>)
       = put_movie today catalogue alice malformedId (noFields \<lparr> b_rating := Some 9 \<rparr>)"
proof -
  have ok: "putErrors (noFields \<lparr> b_rating := Some 9 \<rparr>) = []"
    by (simp add: putErrors_Nil_iff noFields_def)
  show ?thesis
    using malformed_id_as_missing[OF example_ids(3), of catalogue alice today
        "noFields \<lparr> b_rating := Some 9 \<rparr>"] ok example_ids(2) example_lookups(2)
    by simp
qed

text \<open>Claim C6 as stated fails: an update with a malformed identifier and an empty title is
  answered 400, not 404.\<close>

theorem malformed_id_put_not_404_counterexample:
  "castObjectId malformedId = None
   \<and> put_movie today catalogue alice malformedId (noFields \<lparr> b_title := Some [] \<rparr>)
       = (Inl (ValidationError [''Title cannot be empty'']), catalogue)
   \<and> httpStatus (ValidationError [''Title cannot be empty'']) = 400"
  by (simp add: example_ids put_movie_def putErrors_def check_def optional_def
      notEmpty_def isLength_def noFields_def)

subsection \<open>Bounds on update\<close>

lemma updateValid_year:
  assumes "b_releaseYear b = Some y" "y < 1900 \<or> of_nat (bootYear e + 5) < y"
  shows "\<not> updateValid e b"
  using assms by (auto simp: updateValid_def releaseYearOk_def inRange_def)

lemma updateValid_rating:
  assumes "b_rating b = Some r" "r < 0 \<or> 10 < r"
  shows "\<not> updateValid e b"
  using assms by (auto simp: updateValid_def ratingOk_def inRange_def)

text \<open>
  Claim C3 against the code. The claim asks for \<open>ValidationError\<close> (400) whenever an update
  supplies a value outside its bounds, for every field. The route answers so for \<open>title\<close>
  and \<open>description\<close>, which have validators of the route. \<open>releaseYear\<close> and \<open>rating\<close>
  have none: their bounds are those of the schema, which \<open>runValidators: true\<close> applies
  inside \<open>findByIdAndUpdate\<close>, and the \<open>catch\<close> block tells only \<open>CastError\<close> apart, so
  the schema's refusal is answered as \<open>ServerError\<close> (500). At three updates by Alice of
  her own movie: a title of 201 characters is answered 400; rating 11 and the year 1899 are
  answered 500; nothing is stored in any of them.
\<close>

theorem put_movie_out_of_bounds_answers:
  "uploadedBy dune = userId alice
   \<and> put_movie today catalogue alice duneId (noFields \<lparr> b_title := Some (replicate 201 CHR ''a'') \<rparr>)
       = (Inl (ValidationError [''Title must be less than 200 characters'']), catalogue)
   \<and> httpStatus (ValidationError [''Title must be less than 200 characters'']) = 400
   \<and> put_movie today catalogue alice duneId (noFields \<lparr> b_rating := Some 11 \<rparr>)
       = (Inl ServerError, catalogue)
   \<and> put_movie today catalogue alice duneId (noFields \<lparr> b_releaseYear := Some 1899 \<rparr>)
       = (Inl ServerError, catalogue)
   \<and> httpStatus ServerError = 500"
proof -
  have own: "uploadedBy dune = userId alice" by (simp add: dune_def alice_def)
  have e1: "putErrors (noFields \<lparr> b_title := Some (replicate 201 CHR ''a'') \<rparr>)
            = [''Title must be less than 200 characters'']"
    by (simp add: putErrors_def check_def optional_def notEmpty_def isLength_def noFields_def)
  have e2: "putErrors (noFields \<lparr> b_rating := Some 11 \<rparr>) = []"
    by (simp add: putErrors_Nil_iff noFields_def)
  have e3: "putErrors (noFields \<lparr> b_releaseYear := Some 1899 \<rparr>) = []"
    by (simp add: putErrors_Nil_iff noFields_def)
  have v2: "\<not> updateValid today (noFields \<lparr> b_rating := Some 11 \<rparr>)"
    by (rule updateValid_rating[of _ 11]) simp_all
  have v3: "\<not> updateValid today (noFields \<lparr> b_releaseYear := Some 1899 \<rparr>)"
    by (rule updateValid_year[of _ 1899]) simp_all
  have 1: "put_movie today catalogue alice duneId
             (noFields \<lparr> b_title := Some (replicate 201 CHR ''a'') \<rparr>)
       = (Inl (ValidationError [''Title must be less than 200 characters'']), catalogue)"
    using put_movie_invalid[of "noFields \<lparr> b_title := Some (replicate 201 CHR ''a'') \<rparr>"
        today catalogue alice duneId] e1 by simp
  have 2: "put_movie today catalogue alice duneId (noFields \<lparr> b_rating := Some 11 \<rparr>)
       = (Inl ServerError, catalogue)"
    by (rule put_movie_rejected[OF e2 example_ids(1) example_lookups(1) own v2])
  have 3: "put_movie today catalogue alice duneId (noFields \<lparr> b_releaseYear := Some 1899 \<rparr>)
       = (Inl ServerError, catalogue)"
    by (rule put_movie_rejected[OF e3 example_ids(1) example_lookups(1) own v3])
  from own 1 2 3 show ?thesis by simp
qed

subsection \<open>Partial update\<close>

lemma findById_movieId:
  assumes "findById s i = Some m"
  shows "movieId m = i" and "m \<in> set (movies s)"
  using assms unfolding findById_def by (auto simp: find_Some_iff)

lemma find_replaceById_same:
  assumes "movieId m' = i"
  shows "find (\<lambda>m. movieId m = i) (replaceById i m' ms)
         = (case find (\<lambda>m. movieId m = i) ms of None \<Rightarrow> None | Some _ \<Rightarrow> Some m')"
  using assms by (induction ms) auto

lemma find_replaceById_other:
  assumes "movieId m' = i" "j \<noteq> i"
  shows "find (\<lambda>m. movieId m = j) (replaceById i m' ms) = find (\<lambda>m. movieId m = j) ms"
  using assms by (induction ms) auto

lemma applyUpdates_fixed:
  "movieId (applyUpdates e b m) = movieId m"
  "uploadedBy (applyUpdates e b m) = uploadedBy m"
  "uploadedAt (applyUpdates e b m) = uploadedAt m"
  "createdAt (applyUpdates e b m) = createdAt m"
  by (simp_all add: applyUpdates_def)

lemma applyUpdates_absent:
  "b_title b = None \<Longrightarrow> title (applyUpdates e b m) = title m"
  "b_description b = None \<Longrightarrow> description (applyUpdates e b m) = description m"
  "b_genre b = None \<Longrightarrow> genre (applyUpdates e b m) = genre m"
  "b_releaseYear b = None \<Longrightarrow> releaseYear (applyUpdates e b m) = releaseYear m"
  "b_rating b = None \<Longrightarrow> rating (applyUpdates e b m) = rating m"
  "b_posterUrl b = None \<Longrightarrow> posterUrl (applyUpdates e b m) = posterUrl m"
  by (simp_all add: applyUpdates_def)

lemma applyUpdates_present:
  "b_title b = Some t \<Longrightarrow> title (applyUpdates e b m) = trim t"
  "b_description b = Some d \<Longrightarrow> description (applyUpdates e b m) = trim d"
  "b_genre b = Some g \<Longrightarrow> genre (applyUpdates e b m) = Some (trim g)"
  "b_releaseYear b = Some y \<Longrightarrow> releaseYear (applyUpdates e b m) = Some y"
  "b_rating b = Some r \<Longrightarrow> rating (applyUpdates e b m) = Some r"
  "b_posterUrl b = Some p \<Longrightarrow> posterUrl (applyUpdates e b m) = Some (trim p)"
  by (simp_all add: applyUpdates_def)

lemma trim_Nil: "trim [] = []"
  by (simp add: trim_def)

lemma put_movie_cases:
  assumes "castObjectId idParam = Some i" "findById s i = Some m"
  shows "(putErrors b = [] \<and> uploadedBy m = userId u \<and> updateValid e b
          \<and> put_movie e s u idParam b =
              (Inr (populate (s \<lparr> movies := replaceById i (applyUpdates e b m) (movies s) \<rparr>)
                     [''username''] (applyUpdates e b m)),
               s \<lparr> movies := replaceById i (applyUpdates e b m) (movies s) \<rparr>))
       \<or> (\<exists>err. put_movie e s u idParam b = (Inl err, s))"
  unfolding put_movie_def Let_def using assms by simp

lemma findById_after_put:
  assumes "findById s i = Some m"
  shows "findById (s \<lparr> movies := replaceById i (applyUpdates e b m) (movies s) \<rparr>) i
           = Some (applyUpdates e b m)"
    and "j \<noteq> i \<Longrightarrow>
         findById (s \<lparr> movies := replaceById i (applyUpdates e b m) (movies s) \<rparr>) j
           = findById s j"
proof -
  have mi: "movieId (applyUpdates e b m) = i"
    using findById_movieId(1)[OF assms] by (simp add: applyUpdates_fixed)
  show "findById (s \<lparr> movies := replaceById i (applyUpdates e b m) (movies s) \<rparr>) i
           = Some (applyUpdates e b m)"
    using assms find_replaceById_same[OF mi, of "movies s"] by (simp add: findById_def)
  show "findById (s \<lparr> movies := replaceById i (applyUpdates e b m) (movies s) \<rparr>) j
           = findById s j" if "j \<noteq> i"
    using find_replaceById_other[OF mi that, of "movies s"] by (simp add: findById_def)
qed

text \<open>
  Claim C4, as amended. For an existing movie and any body: after the call, the movie still
  exists, every field absent from the body has the value it had (and so do the identifier,
  the owner and the upload instant), and every other movie is as it was. When the update is
  accepted, each supplied field is stored (strings trimmed); in particular a \<open>genre\<close> or a
  \<open>posterUrl\<close> supplied as the empty string overwrites the stored value with the empty
  string. A \<open>title\<close> or \<open>description\<close> supplied as the empty string is neither stored nor
  treated as absent: the call fails with \<open>ValidationError\<close> (400) and nothing changes.
\<close>

theorem put_movie_partial_update:
  assumes "castObjectId idParam = Some i" "findById s i = Some m"
  shows "(\<exists>m'. findById (snd (put_movie e s u idParam b)) i = Some m'
            \<and> (b_title b = None \<longrightarrow> title m' = title m)
            \<and> (b_description b = None \<longrightarrow> description m' = description m)
            \<and> (b_genre b = None \<longrightarrow> genre m' = genre m)
            \<and> (b_releaseYear b = None \<longrightarrow> releaseYear m' = releaseYear m)
            \<and> (b_rating b = None \<longrightarrow> rating m' = rating m)
            \<and> (b_posterUrl b = None \<longrightarrow> posterUrl m' = posterUrl m)
            \<and> movieId m' = movieId m \<and> uploadedBy m' = uploadedBy m
            \<and> uploadedAt m' = uploadedAt m)
       \<and> (\<forall>j. j \<noteq> i \<longrightarrow> findById (snd (put_movie e s u idParam b)) j = findById s j)
       \<and> (putErrors b = [] \<and> uploadedBy m = userId u \<and> updateValid e b \<longrightarrow>
            (\<exists>v s'. put_movie e s u idParam b = (Inr v, s') \<and> findById s' i = Some (v_movie v)
               \<and> (\<forall>t. b_title b = Some t \<longrightarrow> title (v_movie v) = trim t)
               \<and> (\<forall>d. b_description b = Some d \<longrightarrow> description (v_movie v) = trim d)
               \<and> (\<forall>g. b_genre b = Some g \<longrightarrow> genre (v_movie v) = Some (trim g))
               \<and> (\<forall>y. b_releaseYear b = Some y \<longrightarrow> releaseYear (v_movie v) = Some y)
               \<and> (\<forall>r. b_rating b = Some r \<longrightarrow> rating (v_movie v) = Some r)
               \<and> (\<forall>p. b_posterUrl b = Some p \<longrightarrow> posterUrl (v_movie v) = Some (trim p))
               \<and> (b_genre b = Some [] \<longrightarrow> genre (v_movie v) = Some [])
               \<and> (b_posterUrl b = Some [] \<longrightarrow> posterUrl (v_movie v) = Some [])))
       \<and> (b_title b = Some [] \<or> b_description b = Some [] \<longrightarrow>
            putErrors b \<noteq> []
            \<and> put_movie e s u idParam b = (Inl (ValidationError (putErrors b)), s))"
proof -
  let ?m' = "applyUpdates e b m"
  let ?s' = "s \<lparr> movies := replaceById i ?m' (movies s) \<rparr>"
  have frame: "\<exists>m'. findById (snd (put_movie e s u idParam b)) i = Some m'
            \<and> (b_title b = None \<longrightarrow> title m' = title m)
            \<and> (b_description b = None \<longrightarrow> description m' = description m)
            \<and> (b_genre b = None \<longrightarrow> genre m' = genre m)
            \<and> (b_releaseYear b = None \<longrightarrow> releaseYear m' = releaseYear m)
            \<and> (b_rating b = None \<longrightarrow> rating m' = rating m)
            \<and> (b_posterUrl b = None \<longrightarrow> posterUrl m' = posterUrl m)
            \<and> movieId m' = movieId m \<and> uploadedBy m' = uploadedBy m
            \<and> uploadedAt m' = uploadedAt m"
    using put_movie_cases[OF assms, of b u e]
  proof
    assume ok: "putErrors b = [] \<and> uploadedBy m = userId u \<and> updateValid e b
          \<and> put_movie e s u idParam b = (Inr (populate ?s' [''username''] ?m'), ?s')"
    then have "findById (snd (put_movie e s u idParam b)) i = Some ?m'"
      using findById_after_put(1)[OF assms(2)] by simp
    then show ?thesis
      by (intro exI[of _ ?m']) (simp add: applyUpdates_fixed applyUpdates_absent)
  next
    assume "\<exists>err. put_movie e s u idParam b = (Inl err, s)"
    then have "findById (snd (put_movie e s u idParam b)) i = Some m"
      using assms(2) by auto
    then show ?thesis by (intro exI[of _ m]) simp
  qed
  have others: "findById (snd (put_movie e s u idParam b)) j = findById s j" if "j \<noteq> i" for j
    using put_movie_cases[OF assms, of b u e]
  proof
    assume "putErrors b = [] \<and> uploadedBy m = userId u \<and> updateValid e b
          \<and> put_movie e s u idParam b = (Inr (populate ?s' [''username''] ?m'), ?s')"
    then show ?thesis using findById_after_put(2)[OF assms(2) that] by simp
  next
    assume "\<exists>err. put_movie e s u idParam b = (Inl err, s)"
    then show ?thesis by auto
  qed
  have applied: "\<exists>v s'. put_movie e s u idParam b = (Inr v, s') \<and> findById s' i = Some (v_movie v)
               \<and> (\<forall>t. b_title b = Some t \<longrightarrow> title (v_movie v) = trim t)
               \<and> (\<forall>d. b_description b = Some d \<longrightarrow> description (v_movie v) = trim d)
               \<and> (\<forall>g. b_genre b = Some g \<longrightarrow> genre (v_movie v) = Some (trim g))
               \<and> (\<forall>y. b_releaseYear b = Some y \<longrightarrow> releaseYear (v_movie v) = Some y)
               \<and> (\<forall>r. b_rating b = Some r \<longrightarrow> rating (v_movie v) = Some r)
               \<and> (\<forall>p. b_posterUrl b = Some p \<longrightarrow> posterUrl (v_movie v) = Some (trim p))
               \<and> (b_genre b = Some [] \<longrightarrow> genre (v_movie v) = Some [])
               \<and> (b_posterUrl b = Some [] \<longrightarrow> posterUrl (v_movie v) = Some [])"
    if h: "putErrors b = [] \<and> uploadedBy m = userId u \<and> updateValid e b"
  proof -
    have eq: "put_movie e s u idParam b = (Inr (populate ?s' [''username''] ?m'), ?s')"
      using put_movie_ok[OF _ assms, of b u e] h by simp
    have vm: "v_movie (populate ?s' [''username''] ?m') = ?m'" by (simp add: populate_def)
    show ?thesis
      apply (intro exI[of _ "populate ?s' [''username''] ?m'"] exI[of _ ?s'])
      apply (simp only: vm)
      using eq findById_after_put(1)[OF assms(2), of e b]
      apply (simp add: applyUpdates_present trim_Nil)
      done
  qed
  have empty: "putErrors b \<noteq> []
            \<and> put_movie e s u idParam b = (Inl (ValidationError (putErrors b)), s)"
    if "b_title b = Some [] \<or> b_description b = Some []"
  proof -
    have "putErrors b \<noteq> []" using that by (auto simp: putErrors_Nil_iff)
    then show ?thesis using put_movie_invalid by simp
  qed
  from frame others applied empty show ?thesis by blast
qed
text \<open>Alice updates only the rating of her movie; then only the genre, to the empty string.\<close>

theorem put_movie_partial_update_witness:
  "(\<exists>m'. findById (snd (put_movie today catalogue alice duneId (noFields \<lparr> b_rating := Some 9 \<rparr>)))
            161 = Some m'
         \<and> title m' = ''Dune'' \<and> description m' = ''Desert planet saga''
         \<and> genre m' = Some ''Sci-Fi'')
   \<and> (\<exists>v s'. put_movie today catalogue alice duneId (noFields \<lparr> b_rating := Some 9 \<rparr>) = (Inr v, s')
         \<and> rating (v_movie v) = Some 9)
   \<and> (\<exists>v s'. put_movie today catalogue alice duneId (noFields \<lparr> b_genre := Some [] \<rparr>) = (Inr v, s')
         \<and> genre (v_movie v) = Some [])"
proof -
  let ?r = "noFields \<lparr> b_rating := Some 9 \<rparr>"
  let ?g = "noFields \<lparr> b_genre := Some [] \<rparr>"
  have own: "uploadedBy dune = userId alice" by (simp add: dune_def alice_def)
  have r: "putErrors ?r = []" "updateValid today ?r"
    by (simp_all add: putErrors_Nil_iff updateValid_def genreOk_def maxlength_def
        releaseYearOk_def ratingOk_def inRange_def noFields_def)
  have g: "putErrors ?g = []" "updateValid today ?g"
    by (simp_all add: putErrors_Nil_iff updateValid_def genreOk_def maxlength_def
        releaseYearOk_def ratingOk_def inRange_def noFields_def trim_Nil)
  have absent: "b_title ?r = None" "b_description ?r = None" "b_genre ?r = None"
    "b_rating ?r = Some 9" "b_genre ?g = Some []"
    by (simp_all add: noFields_def)
  have d: "title dune = ''Dune''" "description dune = ''Desert planet saga''"
    "genre dune = Some ''Sci-Fi''"
    by (simp_all add: dune_def)
  note R = put_movie_partial_update[OF example_ids(1) example_lookups(1), of today alice ?r]
  note G = put_movie_partial_update[OF example_ids(1) example_lookups(1), of today alice ?g]
  have 1: "\<exists>m'. findById (snd (put_movie today catalogue alice duneId ?r)) 161 = Some m'
         \<and> title m' = ''Dune'' \<and> description m' = ''Desert planet saga''
         \<and> genre m' = Some ''Sci-Fi''"
    using R[THEN conjunct1] absent(1-3) d by metis
  have 2: "\<exists>v s'. put_movie today catalogue alice duneId ?r = (Inr v, s')
         \<and> rating (v_movie v) = Some 9"
    using R[THEN conjunct2, THEN conjunct2, THEN conjunct1] own r absent(4) by metis
  have 3: "\<exists>v s'. put_movie today catalogue alice duneId ?g = (Inr v, s')
         \<and> genre (v_movie v) = Some []"
    using G[THEN conjunct2, THEN conjunct2, THEN conjunct1] own g absent(5) by metis
  from 1 2 3 show ?thesis by (intro conjI)
qed

text \<open>Claim C4 as stated fails: an empty title supplied by the owner does not overwrite the
  stored title.\<close>

theorem put_movie_empty_title_counterexample:
  "findById catalogue 161 = Some dune \<and> uploadedBy dune = userId alice \<and> title dune = ''Dune''
   \<and> put_movie today catalogue alice duneId (noFields \<lparr> b_title := Some [] \<rparr>)
       = (Inl (ValidationError [''Title cannot be empty'']), catalogue)"
proof -
  have "putErrors (noFields \<lparr> b_title := Some [] \<rparr>) = [''Title cannot be empty'']"
    by (simp add: putErrors_def check_def optional_def notEmpty_def isLength_def noFields_def)
  then show ?thesis
    using put_movie_invalid[of "noFields \<lparr> b_title := Some [] \<rparr>" today catalogue alice duneId]
    by (simp add: example_lookups dune_def alice_def)
qed

subsection \<open>Trimming and creation\<close>

lemma hd_trimmed_end:
  "rev (dropWhile P (rev ys)) = [] \<or> hd (rev (dropWhile P (rev ys))) = hd ys"
  by (induction ys rule: rev_induct) (auto simp: hd_append)

lemma dropWhile_trimmed_end:
  assumes "ys = [] \<or> \<not> P (hd ys)"
  shows "dropWhile P (rev (dropWhile P (rev ys))) = rev (dropWhile P (rev ys))"
proof -
  let ?zs = "rev (dropWhile P (rev ys))"
  have "?zs = [] \<or> \<not> P (hd ?zs)"
  proof (cases "?zs = []")
    case True
    then show ?thesis by (rule disjI1)
  next
    case False
    then have "ys \<noteq> []" by auto
    then have "\<not> P (hd ys)" using assms by blast
    moreover have "hd ?zs = hd ys" using hd_trimmed_end[of P ys] False by blast
    ultimately show ?thesis by metis
  qed
  then show ?thesis by (simp only: dropWhile_eq_self_iff)
qed

lemma dropWhile_start: "dropWhile P xs = [] \<or> \<not> P (hd (dropWhile P xs))"
  using hd_dropWhile[of P xs] by blast

lemma trim_idem: "trim (trim s) = trim s"
proof -
  have 1: "dropWhile isSpace (trim s) = trim s"
    unfolding trim_def by (rule dropWhile_trimmed_end) (rule dropWhile_start)
  have "trim (trim s) = rev (dropWhile isSpace (rev (dropWhile isSpace (trim s))))"
    by (simp only: trim_def)
  also have "\<dots> = rev (dropWhile isSpace (rev (trim s)))"
    by (simp only: 1)
  also have "\<dots> = rev (dropWhile isSpace (dropWhile isSpace (rev (dropWhile isSpace s))))"
    by (simp only: trim_def rev_rev_ident)
  also have "\<dots> = trim s"
    by (simp only: dropWhile_idem trim_def)
  finally show ?thesis .
qed

lemma map_option_trim_idem: "map_option trim (map_option trim v) = map_option trim v"
  by (cases v) (simp_all add: trim_idem)

lemma newMovie_fields:
  "movieId (newMovie e u t d b) = freshId e"
  "title (newMovie e u t d b) = trim t"
  "description (newMovie e u t d b) = trim d"
  "uploadedBy (newMovie e u t d b) = userId u"
  "uploadedAt (newMovie e u t d b) = now e"
  "genre (newMovie e u t d b)
     = (case b_genre b of None \<Rightarrow> None | Some g \<Rightarrow> if g \<noteq> [] then Some (trim g) else None)"
  "releaseYear (newMovie e u t d b)
     = (case b_releaseYear b of None \<Rightarrow> None | Some y \<Rightarrow> if y \<noteq> 0 then Some y else None)"
  "rating (newMovie e u t d b)
     = (case b_rating b of None \<Rightarrow> Some 0 | Some r \<Rightarrow> Some r)"
  "posterUrl (newMovie e u t d b)
     = (case b_posterUrl b of None \<Rightarrow> None | Some p \<Rightarrow> if p \<noteq> [] then Some (trim p) else None)"
  by (simp_all add: newMovie_def schemaSet_def truthyStr_def truthyNum_def trim_idem
      split: option.splits)



lemma post_movie_invalid:
  assumes "postErrors b \<noteq> []"
  shows "post_movie e s u b = (Inl (ValidationError (postErrors b)), s)"
  unfolding post_movie_def using assms by simp

lemma post_movie_conflict:
  assumes "postErrors b = []" "b_title b = Some t"
    "m \<in> set (movies s)" "uploadedBy m = userId u" "title m = trim t"
  shows "post_movie e s u b = (Inl ConflictError, s)"
proof -
  obtain d where d: "b_description b = Some d"
    using assms(1) by (auto simp: postErrors_Nil_iff)
  have "find (\<lambda>m. title m = trim t \<and> uploadedBy m = userId u) (movies s) \<noteq> None"
    using assms(3-5) by (auto simp: find_None_iff)
  then obtain x where "findOne s (\<lambda>m. title m = trim t \<and> uploadedBy m = userId u) = Some x"
    by (auto simp: findOne_def)
  then show ?thesis unfolding post_movie_def using assms(1,2) d by simp
qed

lemma post_movie_ok:
  assumes "postErrors b = []" "b_title b = Some t" "b_description b = Some d"
    "\<forall>m\<in>set (movies s). uploadedBy m = userId u \<longrightarrow> title m \<noteq> trim t"
    "schemaValid e (newMovie e u t d b)" "findById s (freshId e) = None"
  shows "post_movie e s u b =
           (Inr (populate (s \<lparr> movies := movies s @ [newMovie e u t d b] \<rparr>) [''username'']
                   (newMovie e u t d b)),
            s \<lparr> movies := movies s @ [newMovie e u t d b] \<rparr>)"
proof -
  have "findOne s (\<lambda>m. title m = trim t \<and> uploadedBy m = userId u) = None"
    using assms(4) by (auto simp: findOne_def find_None_iff)
  then show ?thesis
    unfolding post_movie_def Let_def using assms(1-3,5,6) by (simp add: newMovie_fields)
qed




lemma post_movie_cases:
  "(\<exists>err. post_movie e s u b = (Inl err, s))
   \<or> (\<exists>t d. b_title b = Some t \<and> b_description b = Some d \<and> postErrors b = []
         \<and> schemaValid e (newMovie e u t d b)
         \<and> post_movie e s u b =
           (Inr (populate (s \<lparr> movies := movies s @ [newMovie e u t d b] \<rparr>) [''username'']
                   (newMovie e u t d b)),
            s \<lparr> movies := movies s @ [newMovie e u t d b] \<rparr>))"
proof (cases "postErrors b = []")
  case False
  then show ?thesis using post_movie_invalid by blast
next
  case True
  then obtain t d where td: "b_title b = Some t" "b_description b = Some d"
    by (auto simp: postErrors_Nil_iff)
  show ?thesis
  proof (cases "findOne s (\<lambda>m. title m = trim t \<and> uploadedBy m = userId u)")
    case (Some x)
    then have "post_movie e s u b = (Inl ConflictError, s)"
      unfolding post_movie_def using True td by simp
    then show ?thesis by blast
  next
    case None
    show ?thesis
    proof (cases "schemaValid e (newMovie e u t d b) \<and> findById s (freshId e) = None")
      case False
      then have "post_movie e s u b = (Inl ServerError, s)"
        unfolding post_movie_def Let_def using True td None
        by (auto simp: newMovie_fields)
      then show ?thesis by blast
    next
      case ok: True
      have "\<forall>m\<in>set (movies s). uploadedBy m = userId u \<longrightarrow> title m \<noteq> trim t"
        using None by (auto simp: findOne_def find_None_iff)
      then have "post_movie e s u b =
           (Inr (populate (s \<lparr> movies := movies s @ [newMovie e u t d b] \<rparr>) [''username'']
                   (newMovie e u t d b)),
            s \<lparr> movies := movies s @ [newMovie e u t d b] \<rparr>)"
        using post_movie_ok[OF True td _ _ _, of s u e] ok by simp
      then show ?thesis using ok td True by (intro disjI2 exI[of _ t] exI[of _ d]) simp
    qed
  qed
qed

subsection \<open>Duplicate titles\<close>

lemma in_replaceById_other:
  assumes "m2 \<in> set ms" "movieId m2 \<noteq> i"
  shows "m2 \<in> set (replaceById i m' ms)"
  using assms by (induction ms) auto

lemma in_replaceById_new:
  assumes "m \<in> set ms" "movieId m = i"
  shows "m' \<in> set (replaceById i m' ms)"
  using assms by (induction ms) auto

lemma post_movie_conflict_only:
  assumes "post_movie e s u b = (Inl ConflictError, s')"
  shows "\<exists>t m. b_title b = Some t \<and> m \<in> set (movies s) \<and> uploadedBy m = userId u
           \<and> title m = trim t"
proof (cases "postErrors b = []")
  case False
  then show ?thesis using assms post_movie_invalid[OF False, of e s u] by simp
next
  case True
  then obtain t d where td: "b_title b = Some t" "b_description b = Some d"
    by (auto simp: postErrors_Nil_iff)
  show ?thesis
  proof (cases "findOne s (\<lambda>m. title m = trim t \<and> uploadedBy m = userId u)")
    case None
    then show ?thesis
      using assms True td unfolding post_movie_def Let_def by (simp split: if_splits)
  next
    case (Some x)
    then have "x \<in> set (movies s) \<and> title x = trim t \<and> uploadedBy x = userId u"
      unfolding findOne_def find_Some_iff by (metis nth_mem)
    then show ?thesis using td by blast
  qed
qed

text \<open>
  Claim C2. The duplicate-title check is per owner and made by \<open>POST\<close> only. For a body that
  passes the request validators, which \<open>POST\<close> applies first: \<open>POST\<close> fails with
  \<open>ConflictError\<close> when the user already owns a movie whose stored title is the trimmed new
  title; it succeeds, storing the trimmed title under the user, as soon as no movie of this
  user has that title, whoever else has one (given a document the schema accepts and an
  unused identifier). \<open>PUT\<close> makes no such check: an accepted update by the owner that sets
  the title of one movie to the title of another of the owner's movies succeeds, and both
  are then stored with that title. And \<open>ConflictError\<close> has no other cause: whenever
  \<open>POST\<close> answers it, the user owns a movie with the trimmed new title.
\<close>

theorem duplicate_title_checked_on_create_only:
  "(postErrors b = [] \<and> b_title b = Some t
      \<and> m \<in> set (movies s) \<and> uploadedBy m = userId u \<and> title m = trim t
     \<longrightarrow> post_movie e s u b = (Inl ConflictError, s))
   \<and> (postErrors b = [] \<and> b_title b = Some t \<and> b_description b = Some d
      \<and> (\<forall>x\<in>set (movies s). uploadedBy x = userId u \<longrightarrow> title x \<noteq> trim t)
      \<and> schemaValid e (newMovie e u t d b) \<and> findById s (freshId e) = None
     \<longrightarrow> (\<exists>v. post_movie e s u b = (Inr v, s \<lparr> movies := movies s @ [v_movie v] \<rparr>)
            \<and> title (v_movie v) = trim t \<and> uploadedBy (v_movie v) = userId u))
   \<and> (putErrors b' = [] \<and> castObjectId idParam = Some i \<and> findById s i = Some m1
      \<and> uploadedBy m1 = userId u \<and> updateValid e b' \<and> b_title b' = Some t'
      \<and> m2 \<in> set (movies s) \<and> movieId m2 \<noteq> i \<and> uploadedBy m2 = userId u
      \<and> title m2 = trim t'
     \<longrightarrow> (\<exists>v s'. put_movie e s u idParam b' = (Inr v, s')
            \<and> m2 \<in> set (movies s') \<and> v_movie v \<in> set (movies s')
            \<and> movieId (v_movie v) \<noteq> movieId m2
            \<and> uploadedBy (v_movie v) = userId u \<and> uploadedBy m2 = userId u
            \<and> title (v_movie v) = title m2))
   \<and> (post_movie e s u b = (Inl ConflictError, s)
     \<longrightarrow> (\<exists>x y. b_title b = Some x \<and> y \<in> set (movies s) \<and> uploadedBy y = userId u
            \<and> title y = trim x))"
proof (intro conjI impI)
  assume "postErrors b = [] \<and> b_title b = Some t
      \<and> m \<in> set (movies s) \<and> uploadedBy m = userId u \<and> title m = trim t"
  then show "post_movie e s u b = (Inl ConflictError, s)"
    using post_movie_conflict[of b t m s u e] by blast
next
  assume "post_movie e s u b = (Inl ConflictError, s)"
  then show "\<exists>x y. b_title b = Some x \<and> y \<in> set (movies s) \<and> uploadedBy y = userId u
            \<and> title y = trim x"
    by (rule post_movie_conflict_only)
next
  let ?m = "newMovie e u t d b"
  let ?s' = "s \<lparr> movies := movies s @ [?m] \<rparr>"
  assume h: "postErrors b = [] \<and> b_title b = Some t \<and> b_description b = Some d
      \<and> (\<forall>x\<in>set (movies s). uploadedBy x = userId u \<longrightarrow> title x \<noteq> trim t)
      \<and> schemaValid e (newMovie e u t d b) \<and> findById s (freshId e) = None"
  then have eq: "post_movie e s u b = (Inr (populate ?s' [''username''] ?m), ?s')"
    using post_movie_ok[of b t d s u e] by blast
  have vm: "v_movie (populate ?s' [''username''] ?m) = ?m" by (simp add: populate_def)
  show "\<exists>v. post_movie e s u b = (Inr v, s \<lparr> movies := movies s @ [v_movie v] \<rparr>)
            \<and> title (v_movie v) = trim t \<and> uploadedBy (v_movie v) = userId u"
    by (intro exI[of _ "populate ?s' [''username''] ?m"])
       (simp only: vm eq newMovie_fields simp_thms)
next
  let ?m' = "applyUpdates e b' m1"
  let ?s' = "s \<lparr> movies := replaceById i ?m' (movies s) \<rparr>"
  assume h: "putErrors b' = [] \<and> castObjectId idParam = Some i \<and> findById s i = Some m1
      \<and> uploadedBy m1 = userId u \<and> updateValid e b' \<and> b_title b' = Some t'
      \<and> m2 \<in> set (movies s) \<and> movieId m2 \<noteq> i \<and> uploadedBy m2 = userId u
      \<and> title m2 = trim t'"
  then have eq: "put_movie e s u idParam b' = (Inr (populate ?s' [''username''] ?m'), ?s')"
    using put_movie_ok[of b' idParam i s m1 u e] by blast
  have vm: "v_movie (populate ?s' [''username''] ?m') = ?m'" by (simp add: populate_def)
  have m1: "movieId m1 = i" "m1 \<in> set (movies s)"
    using h findById_movieId[of s i m1] by blast+
  have a: "m2 \<in> set (movies ?s')" using h in_replaceById_other[of m2 "movies s" i ?m'] by simp
  have b: "?m' \<in> set (movies ?s')" using m1 in_replaceById_new[of m1 "movies s" i ?m'] by simp
  have c: "movieId ?m' \<noteq> movieId m2" using h m1 by (simp add: applyUpdates_fixed)
  have d: "uploadedBy ?m' = userId u" using h by (simp add: applyUpdates_fixed)
  have t: "title ?m' = title m2" using h by (simp add: applyUpdates_present)
  show "\<exists>v s'. put_movie e s u idParam b' = (Inr v, s')
            \<and> m2 \<in> set (movies s') \<and> v_movie v \<in> set (movies s')
            \<and> movieId (v_movie v) \<noteq> movieId m2
            \<and> uploadedBy (v_movie v) = userId u \<and> uploadedBy m2 = userId u
            \<and> title (v_movie v) = title m2"
    apply (intro exI[of _ "populate ?s' [''username''] ?m'"] exI[of _ ?s'])
    apply (simp only: vm)
    using eq a b c d t h apply blast
    done
qed


lemma example_trim: "trim '' Dune '' = ''Dune''"
  by (simp add: trim_def isSpace_def)

lemma example_ids2: "castObjectId sequelId = Some 164"
  by (simp add: castObjectId_def sequelId_def hexDigit_def)

lemma example_lookups2:
  "findById catalogue2 164 = Some sequel" "findById catalogue 163 = None"
  by (simp_all add: findById_def catalogue_def catalogue2_def dune_def arrival_def sequel_def)

lemma example_duneBody:
  "postErrors duneBody = []" "b_title duneBody = Some '' Dune ''"
  "b_description duneBody = Some ''Desert planet saga''"
  by (simp_all add: postErrors_Nil_iff duneBody_def noFields_def)

lemma example_schemaValid:
  "schemaValid today (newMovie today bob '' Dune '' ''Desert planet saga'' duneBody)"
  by (simp add: schemaValid_def newMovie_fields example_trim titleOk_def descriptionOk_def
      genreOk_def maxlength_def releaseYearOk_def ratingOk_def inRange_def duneBody_def
      noFields_def trim_def isSpace_def)

text \<open>Alice creates ``Dune'' a second time; Bob creates ``Dune''; Alice renames her second
  movie to ``Dune''.\<close>

theorem duplicate_title_checked_on_create_only_witness:
  "post_movie today catalogue alice duneBody = (Inl ConflictError, catalogue)
   \<and> (\<exists>v. post_movie today catalogue bob duneBody
             = (Inr v, catalogue \<lparr> movies := movies catalogue @ [v_movie v] \<rparr>)
          \<and> title (v_movie v) = ''Dune'' \<and> uploadedBy (v_movie v) = userId bob)
   \<and> (\<exists>v s'. put_movie today catalogue2 alice sequelId (noFields \<lparr> b_title := Some ''Dune'' \<rparr>)
               = (Inr v, s')
          \<and> dune \<in> set (movies s') \<and> v_movie v \<in> set (movies s')
          \<and> movieId (v_movie v) \<noteq> movieId dune
          \<and> uploadedBy (v_movie v) = userId alice \<and> uploadedBy dune = userId alice
          \<and> title (v_movie v) = title dune)"
proof -
  let ?t = "noFields \<lparr> b_title := Some ''Dune'' \<rparr>"
  note T = duplicate_title_checked_on_create_only
  have a: "dune \<in> set (movies catalogue)" "uploadedBy dune = userId alice"
    "title dune = trim '' Dune ''"
    by (simp_all add: catalogue_def dune_def alice_def example_trim)
  have 1: "post_movie today catalogue alice duneBody = (Inl ConflictError, catalogue)"
    using T[THEN conjunct1, of duneBody "'' Dune ''" dune catalogue alice today]
      example_duneBody a by simp
  have b: "\<forall>x\<in>set (movies catalogue). uploadedBy x = userId bob \<longrightarrow> title x \<noteq> trim '' Dune ''"
    by (simp add: catalogue_def dune_def arrival_def bob_def example_trim)
  have 2: "\<exists>v. post_movie today catalogue bob duneBody
             = (Inr v, catalogue \<lparr> movies := movies catalogue @ [v_movie v] \<rparr>)
          \<and> title (v_movie v) = ''Dune'' \<and> uploadedBy (v_movie v) = userId bob"
    using T[THEN conjunct2, THEN conjunct1, of duneBody "'' Dune ''" "''Desert planet saga''"
        catalogue bob today]
      example_duneBody b example_schemaValid example_lookups2(2)
    by (simp add: example_trim today_def)
  have c: "putErrors ?t = []" "updateValid today ?t" "b_title ?t = Some ''Dune''"
    by (simp_all add: putErrors_Nil_iff updateValid_def titleOk_def genreOk_def maxlength_def
        releaseYearOk_def ratingOk_def inRange_def noFields_def trim_def isSpace_def)
  have d: "uploadedBy sequel = userId alice" "dune \<in> set (movies catalogue2)"
    "movieId dune \<noteq> 164" "title dune = trim ''Dune''"
    by (simp_all add: sequel_def alice_def catalogue2_def dune_def trim_def isSpace_def)
  have 3: "\<exists>v s'. put_movie today catalogue2 alice sequelId ?t = (Inr v, s')
          \<and> dune \<in> set (movies s') \<and> v_movie v \<in> set (movies s')
          \<and> movieId (v_movie v) \<noteq> movieId dune
          \<and> uploadedBy (v_movie v) = userId alice \<and> uploadedBy dune = userId alice
          \<and> title (v_movie v) = title dune"
    using T[THEN conjunct2, THEN conjunct2, THEN conjunct1,
        of ?t sequelId 164 catalogue2 sequel alice today "''Dune''" dune]
      c d a(2) example_ids2 example_lookups2(1)
    by simp
  from 1 2 3 show ?thesis by (intro conjI)
qed

subsection \<open>Optional fields at creation\<close>

lemma post_movie_cong:
  assumes "b_title b = b_title b'" "b_description b = b_description b'"
    "\<And>t d. newMovie e u t d b = newMovie e u t d b'"
  shows "post_movie e s u b = post_movie e s u b'"
proof -
  have "postErrors b = postErrors b'" using assms(1,2) by (simp add: postErrors_def)
  then show ?thesis unfolding post_movie_def using assms by (simp split: option.splits)
qed

text \<open>
  Claim C8. At creation an optional field supplied with a falsy value is the same request
  as one without the field: \<open>rating\<close> 0, \<open>releaseYear\<close> 0, and the empty string for
  \<open>genre\<close> or \<open>posterUrl\<close> give exactly the outcome and the store that omitting the field
  gives. In a created movie each optional field is stored only when the supplied value is
  truthy, and \<open>rating\<close> is stored as the schema default 0 otherwise.
\<close>

theorem post_movie_falsy_as_absent:
  "post_movie e s u (b \<lparr> b_rating := Some 0 \<rparr>) = post_movie e s u (b \<lparr> b_rating := None \<rparr>)
   \<and> post_movie e s u (b \<lparr> b_releaseYear := Some 0 \<rparr>)
       = post_movie e s u (b \<lparr> b_releaseYear := None \<rparr>)
   \<and> post_movie e s u (b \<lparr> b_genre := Some [] \<rparr>) = post_movie e s u (b \<lparr> b_genre := None \<rparr>)
   \<and> post_movie e s u (b \<lparr> b_posterUrl := Some [] \<rparr>)
       = post_movie e s u (b \<lparr> b_posterUrl := None \<rparr>)
   \<and> (\<forall>v s'. post_movie e s u b = (Inr v, s') \<longrightarrow>
          s' = s \<lparr> movies := movies s @ [v_movie v] \<rparr>
        \<and> genre (v_movie v)
            = (case b_genre b of None \<Rightarrow> None
               | Some g \<Rightarrow> if g \<noteq> [] then Some (trim g) else None)
        \<and> releaseYear (v_movie v)
            = (case b_releaseYear b of None \<Rightarrow> None
               | Some y \<Rightarrow> if y \<noteq> 0 then Some y else None)
        \<and> rating (v_movie v)
            = (case b_rating b of None \<Rightarrow> Some 0
               | Some r \<Rightarrow> if r \<noteq> 0 then Some r else Some 0)
        \<and> posterUrl (v_movie v)
            = (case b_posterUrl b of None \<Rightarrow> None
               | Some p \<Rightarrow> if p \<noteq> [] then Some (trim p) else None))"
proof -
  have 1: "post_movie e s u (b \<lparr> b_rating := Some 0 \<rparr>) = post_movie e s u (b \<lparr> b_rating := None \<rparr>)"
    by (rule post_movie_cong) (simp_all add: newMovie_def truthyNum_def)
  have 2: "post_movie e s u (b \<lparr> b_releaseYear := Some 0 \<rparr>)
       = post_movie e s u (b \<lparr> b_releaseYear := None \<rparr>)"
    by (rule post_movie_cong) (simp_all add: newMovie_def truthyNum_def)
  have 3: "post_movie e s u (b \<lparr> b_genre := Some [] \<rparr>) = post_movie e s u (b \<lparr> b_genre := None \<rparr>)"
    by (rule post_movie_cong) (simp_all add: newMovie_def truthyStr_def)
  have 4: "post_movie e s u (b \<lparr> b_posterUrl := Some [] \<rparr>)
       = post_movie e s u (b \<lparr> b_posterUrl := None \<rparr>)"
    by (rule post_movie_cong) (simp_all add: newMovie_def truthyStr_def)
  have 5: "s' = s \<lparr> movies := movies s @ [v_movie v] \<rparr>
        \<and> genre (v_movie v)
            = (case b_genre b of None \<Rightarrow> None
               | Some g \<Rightarrow> if g \<noteq> [] then Some (trim g) else None)
        \<and> releaseYear (v_movie v)
            = (case b_releaseYear b of None \<Rightarrow> None
               | Some y \<Rightarrow> if y \<noteq> 0 then Some y else None)
        \<and> rating (v_movie v)
            = (case b_rating b of None \<Rightarrow> Some 0
               | Some r \<Rightarrow> if r \<noteq> 0 then Some r else Some 0)
        \<and> posterUrl (v_movie v)
            = (case b_posterUrl b of None \<Rightarrow> None
               | Some p \<Rightarrow> if p \<noteq> [] then Some (trim p) else None)"
    if ok: "post_movie e s u b = (Inr v, s')" for v s'
  proof -
    from post_movie_cases[of e s u b] ok obtain t d where
      eq: "post_movie e s u b =
           (Inr (populate (s \<lparr> movies := movies s @ [newMovie e u t d b] \<rparr>) [''username'']
                   (newMovie e u t d b)),
            s \<lparr> movies := movies s @ [newMovie e u t d b] \<rparr>)"
      by auto
    have v: "v_movie v = newMovie e u t d b" and s': "s' = s \<lparr> movies := movies s @ [newMovie e u t d b] \<rparr>"
      using ok eq by (auto simp: populate_def)
    have r: "rating (newMovie e u t d b)
            = (case b_rating b of None \<Rightarrow> Some 0
               | Some r \<Rightarrow> if r \<noteq> 0 then Some r else Some 0)"
      by (simp add: newMovie_fields split: option.splits)
    show ?thesis unfolding v s' r by (simp add: newMovie_fields)
  qed
  from 1 2 3 4 5 show ?thesis by blast
qed


text \<open>Bob creates ``Dune'' with an empty genre and poster and rating 0.\<close>

theorem post_movie_falsy_as_absent_witness:
  "post_movie today catalogue bob (duneBody \<lparr> b_rating := Some 0 \<rparr>)
     = post_movie today catalogue bob (duneBody \<lparr> b_rating := None \<rparr>)
   \<and> post_movie today catalogue bob (duneBody \<lparr> b_genre := Some [] \<rparr>)
     = post_movie today catalogue bob (duneBody \<lparr> b_genre := None \<rparr>)
   \<and> (\<exists>v s'. post_movie today catalogue bob
                (duneBody \<lparr> b_genre := Some [], b_rating := Some 0, b_posterUrl := Some [] \<rparr>)
              = (Inr v, s')
          \<and> genre (v_movie v) = None \<and> rating (v_movie v) = Some 0
          \<and> posterUrl (v_movie v) = None)"
proof -
  let ?b = "duneBody \<lparr> b_genre := Some [], b_rating := Some 0, b_posterUrl := Some [] \<rparr>"
  have f: "postErrors ?b = []" "b_title ?b = Some '' Dune ''"
    "b_description ?b = Some ''Desert planet saga''"
    "b_genre ?b = Some []" "b_rating ?b = Some 0" "b_posterUrl ?b = Some []"
    by (simp_all add: postErrors_Nil_iff duneBody_def noFields_def)
  have v: "schemaValid today (newMovie today bob '' Dune '' ''Desert planet saga'' ?b)"
    by (simp add: schemaValid_def newMovie_fields example_trim titleOk_def descriptionOk_def
      genreOk_def maxlength_def releaseYearOk_def ratingOk_def inRange_def duneBody_def
      noFields_def trim_def isSpace_def)
  have b: "\<forall>x\<in>set (movies catalogue). uploadedBy x = userId bob \<longrightarrow> title x \<noteq> trim '' Dune ''"
    by (simp add: catalogue_def dune_def arrival_def bob_def example_trim)
  have fresh: "findById catalogue (freshId today) = None"
    using example_lookups2(2) by (simp add: today_def)
  obtain v s' where ok: "post_movie today catalogue bob ?b = (Inr v, s')"
    using post_movie_ok[OF f(1-3) b v fresh] by blast
  have "genre (v_movie v) = None \<and> rating (v_movie v) = Some 0 \<and> posterUrl (v_movie v) = None"
    using post_movie_falsy_as_absent[of today catalogue bob ?b,
        THEN conjunct2, THEN conjunct2, THEN conjunct2, THEN conjunct2] ok f(4-6)
    by simp
  then have 3: "\<exists>v s'. post_movie today catalogue bob ?b = (Inr v, s')
          \<and> genre (v_movie v) = None \<and> rating (v_movie v) = Some 0
          \<and> posterUrl (v_movie v) = None"
    using ok by blast
  have 1: "post_movie today catalogue bob (duneBody \<lparr> b_rating := Some 0 \<rparr>)
     = post_movie today catalogue bob (duneBody \<lparr> b_rating := None \<rparr>)"
    using post_movie_falsy_as_absent[of today catalogue bob duneBody] by blast
  have 2: "post_movie today catalogue bob (duneBody \<lparr> b_genre := Some [] \<rparr>)
     = post_movie today catalogue bob (duneBody \<lparr> b_genre := None \<rparr>)"
    using post_movie_falsy_as_absent[of today catalogue bob duneBody] by blast
  from 1 2 3 show ?thesis by (intro conjI)
qed

subsection \<open>Stored strings are trimmed\<close>

lemma trimmedMovie_newMovie: "trimmedMovie (newMovie e u t d b)"
  by (simp add: trimmedMovie_def newMovie_fields trim_idem split: option.splits)

lemma trimmedMovie_applyUpdates:
  assumes "trimmedMovie m"
  shows "trimmedMovie (applyUpdates e b m)"
  using assms by (simp add: trimmedMovie_def applyUpdates_def trim_idem split: option.splits)

lemma list_all_replaceById:
  assumes "list_all P ms" "P m'"
  shows "list_all P (replaceById i m' ms)"
  using assms by (induction ms) auto

lemma list_all_removeById:
  assumes "list_all P ms"
  shows "list_all P (removeById i ms)"
  using assms by (induction ms) auto

lemma put_movie_success:
  assumes "put_movie e s u idParam b = (Inr v, s')"
  shows "\<exists>i m. castObjectId idParam = Some i \<and> findById s i = Some m
           \<and> v_movie v = applyUpdates e b m
           \<and> s' = s \<lparr> movies := replaceById i (applyUpdates e b m) (movies s) \<rparr>"
  using assms unfolding put_movie_def Let_def
  by (auto simp: populate_def split: if_splits option.splits)

lemma delete_movie_store:
  "snd (delete_movie s u idParam) = s
   \<or> (\<exists>i. snd (delete_movie s u idParam) = s \<lparr> movies := removeById i (movies s) \<rparr>)"
  unfolding delete_movie_def by (auto split: option.splits)


text \<open>
  Claim C10. If every stored movie's title, description, genre and posterUrl equal their own
  trim, the same holds of the store after any \<open>POST\<close>, \<open>PUT\<close> or \<open>DELETE\<close>, whatever
  its outcome. A created movie holds the trims of the supplied title and description and of
  each non-empty supplied genre and posterUrl; an updated movie holds the trim of each
  supplied string.
\<close>

theorem trimmed_strings_invariant:
  assumes "trimmedStore s"
  shows "trimmedStore (snd (post_movie e s u b))
       \<and> trimmedStore (snd (put_movie e s u idParam b))
       \<and> trimmedStore (snd (delete_movie s u idParam))
       \<and> (\<forall>v s'. post_movie e s u b = (Inr v, s') \<longrightarrow>
             trimmedMovie (v_movie v)
           \<and> (\<exists>t d. b_title b = Some t \<and> b_description b = Some d
                 \<and> title (v_movie v) = trim t \<and> description (v_movie v) = trim d)
           \<and> (\<forall>g. b_genre b = Some g \<and> g \<noteq> [] \<longrightarrow> genre (v_movie v) = Some (trim g))
           \<and> (\<forall>p. b_posterUrl b = Some p \<and> p \<noteq> [] \<longrightarrow>
                 posterUrl (v_movie v) = Some (trim p)))
       \<and> (\<forall>v s'. put_movie e s u idParam b = (Inr v, s') \<longrightarrow>
             trimmedMovie (v_movie v)
           \<and> (\<forall>t. b_title b = Some t \<longrightarrow> title (v_movie v) = trim t)
           \<and> (\<forall>d. b_description b = Some d \<longrightarrow> description (v_movie v) = trim d)
           \<and> (\<forall>g. b_genre b = Some g \<longrightarrow> genre (v_movie v) = Some (trim g))
           \<and> (\<forall>p. b_posterUrl b = Some p \<longrightarrow> posterUrl (v_movie v) = Some (trim p)))"
proof -
  have all: "list_all trimmedMovie (movies s)" using assms by (simp add: trimmedStore_def)
  have post: "trimmedStore (snd (post_movie e s u b))"
    using post_movie_cases[of e s u b]
  proof
    assume "\<exists>err. post_movie e s u b = (Inl err, s)"
    then show ?thesis using assms by auto
  next
    assume "\<exists>t d. b_title b = Some t \<and> b_description b = Some d \<and> postErrors b = []
         \<and> schemaValid e (newMovie e u t d b)
         \<and> post_movie e s u b =
           (Inr (populate (s \<lparr> movies := movies s @ [newMovie e u t d b] \<rparr>) [''username'']
                   (newMovie e u t d b)),
            s \<lparr> movies := movies s @ [newMovie e u t d b] \<rparr>)"
    then obtain t d where
      "snd (post_movie e s u b) = s \<lparr> movies := movies s @ [newMovie e u t d b] \<rparr>"
      by auto
    then show ?thesis using all by (simp add: trimmedStore_def trimmedMovie_newMovie)
  qed
  have put: "trimmedStore (snd (put_movie e s u idParam b))"
  proof (cases "put_movie e s u idParam b")
    case (Pair r s')
    show ?thesis
    proof (cases r)
      case (Inl err)
      then have "s' = s" using Pair put_movie_error_store by blast
      then show ?thesis using Pair assms by simp
    next
      case (Inr v)
      then obtain i m where m: "findById s i = Some m"
        and s': "s' = s \<lparr> movies := replaceById i (applyUpdates e b m) (movies s) \<rparr>"
        using Pair put_movie_success[of e s u idParam b v s'] by blast
      have "m \<in> set (movies s)" using findById_movieId(2)[OF m] .
      then have "trimmedMovie m" using all by (simp add: list_all_iff)
      then have "trimmedMovie (applyUpdates e b m)" by (rule trimmedMovie_applyUpdates)
      then have "list_all trimmedMovie (replaceById i (applyUpdates e b m) (movies s))"
        using all list_all_replaceById by blast
      then show ?thesis using Pair s' by (simp add: trimmedStore_def)
    qed
  qed
  have del: "trimmedStore (snd (delete_movie s u idParam))"
    using delete_movie_store[of s u idParam]
  proof
    assume "snd (delete_movie s u idParam) = s"
    then show ?thesis using assms by simp
  next
    assume "\<exists>i. snd (delete_movie s u idParam) = s \<lparr> movies := removeById i (movies s) \<rparr>"
    then obtain i where "snd (delete_movie s u idParam) = s \<lparr> movies := removeById i (movies s) \<rparr>"
      by blast
    then show ?thesis using all list_all_removeById[of trimmedMovie "movies s" i]
      by (simp add: trimmedStore_def)
  qed
  have created: "trimmedMovie (v_movie v)
           \<and> (\<exists>t d. b_title b = Some t \<and> b_description b = Some d
                 \<and> title (v_movie v) = trim t \<and> description (v_movie v) = trim d)
           \<and> (\<forall>g. b_genre b = Some g \<and> g \<noteq> [] \<longrightarrow> genre (v_movie v) = Some (trim g))
           \<and> (\<forall>p. b_posterUrl b = Some p \<and> p \<noteq> [] \<longrightarrow>
                 posterUrl (v_movie v) = Some (trim p))"
    if ok: "post_movie e s u b = (Inr v, s')" for v s'
  proof -
    from post_movie_cases[of e s u b] ok obtain t d where
      td: "b_title b = Some t" "b_description b = Some d" and
      eq: "post_movie e s u b =
           (Inr (populate (s \<lparr> movies := movies s @ [newMovie e u t d b] \<rparr>) [''username'']
                   (newMovie e u t d b)),
            s \<lparr> movies := movies s @ [newMovie e u t d b] \<rparr>)"
      by auto
    have v: "v_movie v = newMovie e u t d b" using ok eq by (auto simp: populate_def)
    show ?thesis unfolding v using td
      by (simp add: trimmedMovie_newMovie newMovie_fields)
  qed
  have updated: "trimmedMovie (v_movie v)
           \<and> (\<forall>t. b_title b = Some t \<longrightarrow> title (v_movie v) = trim t)
           \<and> (\<forall>d. b_description b = Some d \<longrightarrow> description (v_movie v) = trim d)
           \<and> (\<forall>g. b_genre b = Some g \<longrightarrow> genre (v_movie v) = Some (trim g))
           \<and> (\<forall>p. b_posterUrl b = Some p \<longrightarrow> posterUrl (v_movie v) = Some (trim p))"
    if ok: "put_movie e s u idParam b = (Inr v, s')" for v s'
  proof -
    from put_movie_success[OF ok] obtain i m where m: "findById s i = Some m"
      and v: "v_movie v = applyUpdates e b m" by blast
    have "m \<in> set (movies s)" using findById_movieId(2)[OF m] .
    then have "trimmedMovie m" using all by (simp add: list_all_iff)
    then have "trimmedMovie (applyUpdates e b m)" by (rule trimmedMovie_applyUpdates)
    then show ?thesis unfolding v by (simp add: applyUpdates_present)
  qed
  from post put del created updated show ?thesis by blast
qed


text \<open>The example catalogue is trimmed; Bob creates ``Dune'' from a padded title, Alice sets
  a padded genre, Alice deletes her movie.\<close>

lemma example_trimmed: "trimmedStore catalogue"
  by (simp add: trimmedStore_def catalogue_def trimmedMovie_def dune_def arrival_def trim_def
      isSpace_def)

theorem trimmed_strings_invariant_witness:
  "trimmedStore catalogue
   \<and> trimmedStore (snd (post_movie today catalogue bob duneBody))
   \<and> trimmedStore (snd (put_movie today catalogue alice duneId (noFields \<lparr> b_genre := Some '' Epic '' \<rparr>)))
   \<and> trimmedStore (snd (delete_movie catalogue alice duneId))
   \<and> (\<exists>v s'. post_movie today catalogue bob duneBody = (Inr v, s') \<and> title (v_movie v) = ''Dune'')
   \<and> (\<exists>v s'. put_movie today catalogue alice duneId (noFields \<lparr> b_genre := Some '' Epic '' \<rparr>)
               = (Inr v, s')
          \<and> genre (v_movie v) = Some ''Epic'')"
proof -
  let ?g = "noFields \<lparr> b_genre := Some '' Epic '' \<rparr>"
  note T = trimmed_strings_invariant[OF example_trimmed, of today bob duneBody duneId]
  note U = trimmed_strings_invariant[OF example_trimmed, of today alice ?g duneId]
  have b: "\<forall>x\<in>set (movies catalogue). uploadedBy x = userId bob \<longrightarrow> title x \<noteq> trim '' Dune ''"
    by (simp add: catalogue_def dune_def arrival_def bob_def example_trim)
  have fresh: "findById catalogue (freshId today) = None"
    using example_lookups2(2) by (simp add: today_def)
  obtain v s' where ok: "post_movie today catalogue bob duneBody = (Inr v, s')"
    using post_movie_ok[OF example_duneBody b example_schemaValid fresh] by blast
  then have "title (v_movie v) = trim '' Dune ''"
    using T example_duneBody(2) by auto
  then have 1: "\<exists>v s'. post_movie today catalogue bob duneBody = (Inr v, s')
      \<and> title (v_movie v) = ''Dune''"
    using ok example_trim by auto
  have g: "putErrors ?g = []" "updateValid today ?g" "b_genre ?g = Some '' Epic ''"
    "trim '' Epic '' = ''Epic''"
    by (simp_all add: putErrors_Nil_iff updateValid_def genreOk_def maxlength_def
        releaseYearOk_def ratingOk_def inRange_def noFields_def trim_def isSpace_def)
  have own: "uploadedBy dune = userId alice" by (simp add: dune_def alice_def)
  obtain w t' where ok2: "put_movie today catalogue alice duneId ?g = (Inr w, t')"
    using put_movie_ok[OF g(1) example_ids(1) example_lookups(1) own g(2)] by blast
  then have "genre (v_movie w) = Some (trim '' Epic '')"
    using U g(3) by auto
  then have 2: "\<exists>v s'. put_movie today catalogue alice duneId ?g = (Inr v, s')
          \<and> genre (v_movie v) = Some ''Epic''"
    using ok2 g(4) by auto
  from T U 1 2 example_trimmed show ?thesis by blast
qed

subsection \<open>Listing: paging\<close>

lemma set_insertDoc: "set (insertDoc le x ys) = insert x (set ys)"
  by (induction ys) auto


lemma set_sortDocs: "set (sortDocs f d ms) = set ms"
  unfolding sortDocs_def by (induction ms) (simp_all add: set_insertDoc)


lemma skip_negative: "((int page - 1) * int limit < 0) = (page = 0 \<and> 0 < limit)"
  by (cases page) (auto simp: mult_less_0_iff)

lemma skip_nat: "0 < page \<Longrightarrow> nat ((int page - 1) * int limit) = (page - 1) * limit"
  by (cases page) (simp_all add: nat_mult_distrib)




lemma get_movies_ok:
  assumes "0 < pageOf q"
  shows "get_movies s q =
     Inr \<lparr> l_movies = map (populate s [''username''])
              (paginate ((pageOf q - 1) * limitOf q) (limitOf q)
                 (sortDocs (sortByOf q) (sortOrderOf q)
                    (filter (searchQuery (q_search q)) (movies s)))),
           currentPage = pageOf q,
           totalPages = pageCount (length (filter (searchQuery (q_search q)) (movies s))) (limitOf q),
           totalMovies = length (filter (searchQuery (q_search q)) (movies s)) \<rparr>"
  unfolding get_movies_def Let_def using assms
  by (simp add: skip_negative skip_nat)






subsection \<open>Listing: search\<close>

lemma paginate_subset: "set (paginate sk limit xs) \<subseteq> set xs"
proof -
  have "set (take limit (drop sk xs)) \<subseteq> set xs"
    using set_take_subset[of limit "drop sk xs"] set_drop_subset[of sk xs] by blast
  then show ?thesis using set_drop_subset[of sk xs] by (simp add: paginate_def)
qed

lemma paginate_covers:
  assumes "0 < limit" "x \<in> set xs"
  shows "\<exists>p>0. x \<in> set (paginate ((p - 1) * limit) limit xs)"
proof -
  obtain k where k: "k < length xs" "xs ! k = x"
    using assms(2) by (auto simp: in_set_conv_nth)
  let ?sk = "(k div limit) * limit"
  have le: "?sk \<le> k" by simp
  have off: "k - ?sk = k mod limit" by (simp add: minus_div_mult_eq_mod)
  have recompose: "?sk + k mod limit = k" by simp
  have lt: "k mod limit < limit" using assms(1) by simp
  have "k - ?sk < length xs - ?sk" using k(1) le by (rule diff_less_mono)
  then have inr: "k mod limit < length (drop ?sk xs)" using off by simp
  have "take limit (drop ?sk xs) ! (k mod limit) = drop ?sk xs ! (k mod limit)"
    using lt by (rule nth_take)
  also have "\<dots> = xs ! (?sk + k mod limit)"
    using le k(1) by (intro nth_drop) linarith
  also have "\<dots> = x" using k(2) by (simp only: recompose)
  finally have "take limit (drop ?sk xs) ! (k mod limit) = x" .
  moreover have "k mod limit < length (take limit (drop ?sk xs))" using lt inr by simp
  ultimately have "x \<in> set (take limit (drop ?sk xs))" using nth_mem by blast
  then have "x \<in> set (paginate ((Suc (k div limit) - 1) * limit) limit xs)"
    using assms(1) by (simp add: paginate_def)
  then show ?thesis by (intro exI[of _ "Suc (k div limit)"]) simp
qed


lemma query_with_page:
  "pageOf (q \<lparr> q_page := Some p \<rparr>) = p" "limitOf (q \<lparr> q_page := Some p \<rparr>) = limitOf q"
  "sortByOf (q \<lparr> q_page := Some p \<rparr>) = sortByOf q"
  "sortOrderOf (q \<lparr> q_page := Some p \<rparr>) = sortOrderOf q"
  "q_search (q \<lparr> q_page := Some p \<rparr>) = q_search q"
  by (simp_all add: pageOf_def limitOf_def sortByOf_def sortOrderOf_def)

lemma v_movie_populate: "v_movie ` set (map (populate s sel) xs) = set xs"
  by (force simp: populate_def)



lemma get_movies_at_page:
  assumes "0 < p"
  shows "get_movies s (q \<lparr> q_page := Some p \<rparr>) =
     Inr \<lparr> l_movies = map (populate s [''username''])
              (paginate ((p - 1) * limitOf q) (limitOf q)
                 (sortDocs (sortByOf q) (sortOrderOf q)
                    (filter (searchQuery (q_search q)) (movies s)))),
           currentPage = p,
           totalPages = pageCount (length (filter (searchQuery (q_search q)) (movies s))) (limitOf q),
           totalMovies = length (filter (searchQuery (q_search q)) (movies s)) \<rparr>"
proof -
  have "0 < pageOf (q \<lparr> q_page := Some p \<rparr>)" using assms by (simp only: query_with_page)
  from get_movies_ok[OF this, of s] show ?thesis by (simp only: query_with_page)
qed

lemma paginate_covers_any:
  assumes "x \<in> set xs"
  shows "\<exists>p>0. x \<in> set (paginate ((p - 1) * limit) limit xs)"
proof (cases "limit = 0")
  case True
  then have "x \<in> set (paginate ((1 - 1) * limit) limit xs)"
    using assms by (simp add: paginate_def)
  then show ?thesis by (intro exI[of _ 1]) simp
next
  case False
  then have "0 < limit" by simp
  then show ?thesis using assms by (rule paginate_covers)
qed

lemma get_movies_found:
  assumes "get_movies s q = Inr r"
  shows "\<exists>sk. l_movies r = map (populate s [''username''])
           (paginate sk (limitOf q)
              (sortDocs (sortByOf q) (sortOrderOf q)
                 (filter (searchQuery (q_search q)) (movies s))))"
  using assms unfolding get_movies_def Let_def by (auto split: if_splits)

lemma get_movies_all_pages:
  "{m. \<exists>p r. get_movies s (q \<lparr> q_page := Some p \<rparr>) = Inr r \<and> m \<in> v_movie ` set (l_movies r)}
     = {m \<in> set (movies s). searchQuery (q_search q) m}"
proof (intro equalityI subsetI)
  let ?found = "sortDocs (sortByOf q) (sortOrderOf q) (filter (searchQuery (q_search q)) (movies s))"
  fix m
  assume "m \<in> {m. \<exists>p r. get_movies s (q \<lparr> q_page := Some p \<rparr>) = Inr r
                     \<and> m \<in> v_movie ` set (l_movies r)}"
  then obtain p r where r: "get_movies s (q \<lparr> q_page := Some p \<rparr>) = Inr r"
    and m: "m \<in> v_movie ` set (l_movies r)" by blast
  from get_movies_found[OF r] obtain sk where
    "l_movies r = map (populate s [''username'']) (paginate sk (limitOf q) ?found)"
    by (auto simp only: query_with_page)
  then have "m \<in> set (paginate sk (limitOf q) ?found)"
    using m by (simp only: v_movie_populate)
  then have "m \<in> set ?found"
    using paginate_subset[of sk "limitOf q" ?found] by (rule_tac subsetD)
  then have "m \<in> set (filter (searchQuery (q_search q)) (movies s))"
    by (simp only: set_sortDocs)
  then show "m \<in> {m \<in> set (movies s). searchQuery (q_search q) m}" by simp
next
  let ?found = "sortDocs (sortByOf q) (sortOrderOf q) (filter (searchQuery (q_search q)) (movies s))"
  fix m
  assume "m \<in> {m \<in> set (movies s). searchQuery (q_search q) m}"
  then have "m \<in> set (filter (searchQuery (q_search q)) (movies s))" by simp
  then have "m \<in> set ?found" by (simp only: set_sortDocs)
  from paginate_covers_any[OF this] obtain p where p: "0 < p"
    and m: "m \<in> set (paginate ((p - 1) * limitOf q) (limitOf q) ?found)" by blast
  let ?r = "\<lparr> l_movies = map (populate s [''username''])
              (paginate ((p - 1) * limitOf q) (limitOf q) ?found),
           currentPage = p,
           totalPages = pageCount (length (filter (searchQuery (q_search q)) (movies s))) (limitOf q),
           totalMovies = length (filter (searchQuery (q_search q)) (movies s)) \<rparr>"
  have r: "get_movies s (q \<lparr> q_page := Some p \<rparr>) = Inr ?r"
    by (rule get_movies_at_page[OF p])
  have "l_movies ?r = map (populate s [''username''])
              (paginate ((p - 1) * limitOf q) (limitOf q) ?found)"
    by (simp only: listing.simps)
  then have "m \<in> v_movie ` set (l_movies ?r)" using m by (simp only: v_movie_populate)
  then show "m \<in> {m. \<exists>p r. get_movies s (q \<lparr> q_page := Some p \<rparr>) = Inr r
                     \<and> m \<in> v_movie ` set (l_movies r)}"
    using r by blast
qed

text \<open>
  Claim C7. Over all pages of a listing, the movies returned are: when
  \<open>search\<close> is a non-empty string, exactly the stored movies whose title or description
  matches it; when \<open>search\<close> is absent or empty, all stored movies. The match is the
  text match modelled from the spec: some token of the search string is a token of the
  field, and tokens depend only on the lower-cased string.
\<close>

theorem search_result_set:
  "{m. \<exists>p r. get_movies s (q \<lparr> q_page := Some p \<rparr>) = Inr r \<and> m \<in> v_movie ` set (l_movies r)}
         = (case q_search q of
              None \<Rightarrow> set (movies s)
            | Some x \<Rightarrow>
                if x = [] then set (movies s)
                else {m \<in> set (movies s). fieldMatch x (title m) \<or> fieldMatch x (description m)})
       \<and> (\<forall>x f. fieldMatch x f = (\<exists>t \<in> set (tokens x). t \<in> set (tokens f)))
       \<and> (\<forall>x y. map lowerChar x = map lowerChar y \<longrightarrow> tokens x = tokens y)"
proof -
  have "{m \<in> set (movies s). searchQuery (q_search q) m}
         = (case q_search q of
              None \<Rightarrow> set (movies s)
            | Some x \<Rightarrow>
                if x = [] then set (movies s)
                else {m \<in> set (movies s). fieldMatch x (title m) \<or> fieldMatch x (description m)})"
    by (simp add: searchQuery_def truthyStr_def textMatch_def split: option.splits)
  then have 1: "{m. \<exists>p r. get_movies s (q \<lparr> q_page := Some p \<rparr>) = Inr r
                     \<and> m \<in> v_movie ` set (l_movies r)}
         = (case q_search q of
              None \<Rightarrow> set (movies s)
            | Some x \<Rightarrow>
                if x = [] then set (movies s)
                else {m \<in> set (movies s). fieldMatch x (title m) \<or> fieldMatch x (description m)})"
    using get_movies_all_pages[of s q] by (rule_tac trans)
  have 2: "fieldMatch x f = (\<exists>t \<in> set (tokens x). t \<in> set (tokens f))" for x f
    by (simp add: fieldMatch_def list_ex_iff)
  have 3: "tokens x = tokens y" if "map lowerChar x = map lowerChar y" for x y
    using that by (simp add: tokens_def)
  from 1 2 3 show ?thesis by blast
qed

text \<open>Searching ``DUNE'' in the catalogue of ``Dune'' and ``Arrival''.\<close>

lemma example_match:
  "fieldMatch ''DUNE'' (title dune)" "\<not> fieldMatch ''DUNE'' (title arrival)"
  "\<not> fieldMatch ''DUNE'' (description arrival)"
  by code_simp+

theorem search_result_set_witness:
  "{m. \<exists>p r. get_movies catalogue (noParams \<lparr> q_search := Some ''DUNE'', q_page := Some p \<rparr>) = Inr r
          \<and> m \<in> v_movie ` set (l_movies r)} = {dune}
   \<and> {m. \<exists>p r. get_movies catalogue (noParams \<lparr> q_page := Some p \<rparr>) = Inr r
          \<and> m \<in> v_movie ` set (l_movies r)} = {dune, arrival}"
proof -
  let ?q = "noParams \<lparr> q_search := Some ''DUNE'' \<rparr>"
  have q: "q_search ?q = Some ''DUNE''" "q_search noParams = None"
    by (simp_all add: noParams_def)
  have ms: "set (movies catalogue) = {dune, arrival}" by (simp add: catalogue_def)
  have "{m \<in> {dune, arrival}. fieldMatch ''DUNE'' (title m) \<or> fieldMatch ''DUNE'' (description m)}
          = {dune}"
    using example_match by auto
  then have 1: "{m. \<exists>p r. get_movies catalogue (?q \<lparr> q_page := Some p \<rparr>) = Inr r
          \<and> m \<in> v_movie ` set (l_movies r)} = {dune}"
    using search_result_set[of catalogue ?q, THEN conjunct1] q(1) ms by simp
  have 2: "{m. \<exists>p r. get_movies catalogue (noParams \<lparr> q_page := Some p \<rparr>) = Inr r
          \<and> m \<in> v_movie ` set (l_movies r)} = {dune, arrival}"
    using search_result_set[of catalogue noParams, THEN conjunct1] q(2) ms by simp
  from 1 2 show ?thesis by (intro conjI)
qed

subsection \<open>The embedded owner\<close>

lemma get_movies_owner:
  assumes "get_movies s q = Inr r" "v \<in> set (l_movies r)"
  shows "\<exists>m. v = populate s [''username''] m"
  using assms unfolding get_movies_def Let_def by (auto split: if_splits)

lemma get_my_movies_owner:
  assumes "get_my_movies s u q = Inr r" "v \<in> set (l_movies r)"
  shows "\<exists>m. v = populate s [''username''] m"
  using assms unfolding get_my_movies_def Let_def by (auto split: if_splits)

lemma get_movie_owner:
  assumes "get_movie s idParam = Inr v"
  shows "\<exists>m. v = populate s [''username'', ''email''] m"
  using assms unfolding get_movie_def by (auto split: option.splits)

lemma selectFields_username:
  "selectFields [''username'']
     = (\<lambda>u. \<lparr> o_id = userId u, o_username = Some (username u), o_email = None \<rparr>)"
  by (rule ext) (simp add: selectFields_def)

lemma selectFields_username_email:
  "selectFields [''username'', ''email'']
     = (\<lambda>u. \<lparr> o_id = userId u, o_username = Some (username u), o_email = Some (email u) \<rparr>)"
  by (rule ext) (simp add: selectFields_def)

lemma populate_username:
  "v_owner (populate s [''username''] m)
     = map_option (\<lambda>u. \<lparr> o_id = userId u, o_username = Some (username u), o_email = None \<rparr>)
         (find (\<lambda>u. userId u = uploadedBy (v_movie (populate s [''username''] m))) (users s))"
  by (simp add: populate_def selectFields_username)

lemma populate_username_email:
  "v_owner (populate s [''username'', ''email''] m)
     = map_option (\<lambda>u. \<lparr> o_id = userId u, o_username = Some (username u),
                           o_email = Some (email u) \<rparr>)
         (find (\<lambda>u. userId u = uploadedBy (v_movie (populate s [''username'', ''email''] m)))
            (users s))"
  by (simp add: populate_def selectFields_username_email)

text \<open>
  Claim C9. The movie returned by \<open>GET /:id\<close> embeds, for a stored owner, the owner's
  identifier, username and email; every movie returned by the two listings embeds the
  owner's identifier and username and no email.
\<close>

theorem owner_fields_embedded:
  "(\<forall>v. get_movie s idParam = Inr v \<longrightarrow>
        v_owner v
          = map_option (\<lambda>u. \<lparr> o_id = userId u, o_username = Some (username u),
                                o_email = Some (email u) \<rparr>)
              (find (\<lambda>u. userId u = uploadedBy (v_movie v)) (users s)))
   \<and> (\<forall>r. get_movies s q = Inr r \<longrightarrow>
        list_all (\<lambda>v. v_owner v
          = map_option (\<lambda>u. \<lparr> o_id = userId u, o_username = Some (username u), o_email = None \<rparr>)
              (find (\<lambda>u. userId u = uploadedBy (v_movie v)) (users s))) (l_movies r))
   \<and> (\<forall>r. get_my_movies s u q = Inr r \<longrightarrow>
        list_all (\<lambda>v. v_owner v
          = map_option (\<lambda>u. \<lparr> o_id = userId u, o_username = Some (username u), o_email = None \<rparr>)
              (find (\<lambda>u. userId u = uploadedBy (v_movie v)) (users s))) (l_movies r))"
proof (intro conjI allI impI)
  fix v assume "get_movie s idParam = Inr v"
  then obtain m where "v = populate s [''username'', ''email''] m"
    using get_movie_owner by blast
  then show "v_owner v
          = map_option (\<lambda>u. \<lparr> o_id = userId u, o_username = Some (username u),
                                o_email = Some (email u) \<rparr>)
              (find (\<lambda>u. userId u = uploadedBy (v_movie v)) (users s))"
    using populate_username_email[of s m] by simp
next
  fix r assume r: "get_movies s q = Inr r"
  have "v_owner v
          = map_option (\<lambda>u. \<lparr> o_id = userId u, o_username = Some (username u), o_email = None \<rparr>)
              (find (\<lambda>u. userId u = uploadedBy (v_movie v)) (users s))"
    if mem: "v \<in> set (l_movies r)" for v
  proof -
    obtain m where "v = populate s [''username''] m"
      using get_movies_owner[OF r mem] by blast
    then show ?thesis using populate_username[of s m] by simp
  qed
  then show "list_all (\<lambda>v. v_owner v
          = map_option (\<lambda>u. \<lparr> o_id = userId u, o_username = Some (username u), o_email = None \<rparr>)
              (find (\<lambda>u. userId u = uploadedBy (v_movie v)) (users s))) (l_movies r)"
    by (simp add: list_all_iff)
next
  fix r assume r: "get_my_movies s u q = Inr r"
  have "v_owner v
          = map_option (\<lambda>u. \<lparr> o_id = userId u, o_username = Some (username u), o_email = None \<rparr>)
              (find (\<lambda>u. userId u = uploadedBy (v_movie v)) (users s))"
    if mem: "v \<in> set (l_movies r)" for v
  proof -
    obtain m where "v = populate s [''username''] m"
      using get_my_movies_owner[OF r mem] by blast
    then show ?thesis using populate_username[of s m] by simp
  qed
  then show "list_all (\<lambda>v. v_owner v
          = map_option (\<lambda>u. \<lparr> o_id = userId u, o_username = Some (username u), o_email = None \<rparr>)
              (find (\<lambda>u. userId u = uploadedBy (v_movie v)) (users s))) (l_movies r)"
    by (simp add: list_all_iff)
qed

text \<open>Alice's movie fetched by identifier, and the two listings of the catalogue.\<close>

lemma example_listing:
  "get_movies catalogue noParams
     = Inr \<lparr> l_movies =
               [\<lparr> v_movie = arrival,
                  v_owner = Some \<lparr> o_id = 2, o_username = Some ''bob'', o_email = None \<rparr> \<rparr>,
                \<lparr> v_movie = dune,
                  v_owner = Some \<lparr> o_id = 1, o_username = Some ''alice'', o_email = None \<rparr> \<rparr>],
             currentPage = 1, totalPages = Some 1, totalMovies = 2 \<rparr>"
  by code_simp

lemma example_my_listing:
  "get_my_movies catalogue alice noParams
     = Inr \<lparr> l_movies =
               [\<lparr> v_movie = dune,
                  v_owner = Some \<lparr> o_id = 1, o_username = Some ''alice'', o_email = None \<rparr> \<rparr>],
             currentPage = 1, totalPages = Some 1, totalMovies = 1 \<rparr>"
  by code_simp

lemma example_owner: "find (\<lambda>u. userId u = uploadedBy dune) (users catalogue) = Some alice"
  by (simp add: catalogue_def dune_def alice_def)

theorem owner_fields_embedded_witness:
  "(\<exists>v. get_movie catalogue duneId = Inr v \<and> v_movie v = dune
        \<and> v_owner v = Some \<lparr> o_id = 1, o_username = Some ''alice'',
                              o_email = Some ''alice@example.com'' \<rparr>)
   \<and> (\<exists>r. get_movies catalogue noParams = Inr r
        \<and> map v_owner (l_movies r)
            = [Some \<lparr> o_id = 2, o_username = Some ''bob'', o_email = None \<rparr>,
               Some \<lparr> o_id = 1, o_username = Some ''alice'', o_email = None \<rparr>])
   \<and> (\<exists>r. get_my_movies catalogue alice noParams = Inr r
        \<and> map v_owner (l_movies r)
            = [Some \<lparr> o_id = 1, o_username = Some ''alice'', o_email = None \<rparr>])"
proof -
  note T = owner_fields_embedded[of catalogue duneId noParams alice]
  let ?v = "populate catalogue [''username'', ''email''] dune"
  have g: "get_movie catalogue duneId = Inr ?v"
    by (rule get_movie_ok[OF example_ids(1) example_lookups(1)])
  have vm: "v_movie ?v = dune" by (simp add: populate_def)
  have "v_owner ?v = Some \<lparr> o_id = 1, o_username = Some ''alice'',
                              o_email = Some ''alice@example.com'' \<rparr>"
    using T[THEN conjunct1] g vm example_owner by (simp add: alice_def)
  then have 1: "\<exists>v. get_movie catalogue duneId = Inr v \<and> v_movie v = dune
        \<and> v_owner v = Some \<lparr> o_id = 1, o_username = Some ''alice'',
                              o_email = Some ''alice@example.com'' \<rparr>"
    using g vm by blast
  have 2: "\<exists>r. get_movies catalogue noParams = Inr r
        \<and> map v_owner (l_movies r)
            = [Some \<lparr> o_id = 2, o_username = Some ''bob'', o_email = None \<rparr>,
               Some \<lparr> o_id = 1, o_username = Some ''alice'', o_email = None \<rparr>]"
    using example_listing by simp
  have 3: "\<exists>r. get_my_movies catalogue alice noParams = Inr r
        \<and> map v_owner (l_movies r)
            = [Some \<lparr> o_id = 1, o_username = Some ''alice'', o_email = None \<rparr>]"
    using example_my_listing by simp
  from 1 2 3 show ?thesis by (intro conjI)
qed

end
